theory Spec2Isabelle
  imports Complex_Main
begin

text \<open>
  A shallow embedding of the intent service: the wire types, the prompt builder and response
  parser, the intent handler and the request dispatcher, the Redis-backed conversation store
  with the memory manager, and the memory-integrated completion binding. Library functions
  (\<open>json.Marshal\<close>, \<open>json.Unmarshal\<close>, \<open>strings.Title\<close>) and the outside world (the completion
  backend, the Redis server, the clock) are parameters or explicit state. Log output is left
  out.
\<close>

section \<open>Wire types (package models)\<close>

text \<open>
  Go strings are byte sequences; \<^typ>\<open>string\<close> is a list of 8-bit characters, so
  \<open>strings.Index\<close>, slicing and comparison with \<open>""\<close> are modelled bytewise. A pointer
  \<open>*string\<close> is a \<^typ>\<open>string option\<close>; a map that may be \<open>nil\<close> is an optional
  partial function.
\<close>

record ConversationMessage =
  cm_Role :: string
  cm_Message :: string

record ActionSchema =
  as_Action :: string
  as_Parameters :: "string list"

record IntentRequest =
  req_SessionID :: string
  req_UserMessage :: string
  ConversationHistory :: "ConversationMessage list"
  AvailableActions :: "ActionSchema list"

record IntentResponse =
  SessionID :: string
  Action :: "string option"
  Status :: string
  Parameters :: "(string \<rightharpoonup> string option) option"
  UserMessage :: string
  ErrorCode :: "string option"
  ErrorMessage :: "string option"

definition StatusNeedsInfo :: string where "StatusNeedsInfo = ''NEEDS_INFO''"
definition StatusReady :: string where "StatusReady = ''READY''"
definition StatusError :: string where "StatusError = ''ERROR''"

definition ErrorLLMTimeout :: string where "ErrorLLMTimeout = ''LLM_API_TIMEOUT''"
definition ErrorLLMFailed :: string where "ErrorLLMFailed = ''LLM_API_FAILED''"
definition ErrorParseError :: string where "ErrorParseError = ''PARSE_ERROR''"
definition ErrorUnknownIntent :: string where "ErrorUnknownIntent = ''UNKNOWN_INTENT''"

section \<open>Completion request and response (package llm)\<close>

record Usage =
  InputTokens :: int
  OutputTokens :: int

text \<open>The temperature is a floating-point literal that is only passed on; it is kept as a rational.\<close>

record LLMRequest =
  Prompt :: string
  llm_ConversationHistory :: "ConversationMessage list"
  MaxTokens :: int
  Temperature :: rat

record LLMResponse =
  llm_Content :: string
  llm_Usage :: "Usage option"

section \<open>Prompt construction and response parsing (package prompts)\<close>

definition nl :: string where "nl = [CHR 0x0A]"
definition dq :: string where "dq = [CHR 0x22]"

text \<open>The format string \<open>SystemPrompt\<close> has two \<open>%s\<close> verbs; the three constants are the text around them.\<close>

definition SystemPrompt_1 :: string where
  "SystemPrompt_1 =
    ''You are an AI assistant for CDNbuddy, a CDN management platform. Your job is to analyze user conversations and determine what CDN-related actions they want to perform.''
      @ nl @ nl @ ''IMPORTANT RULES:'' @ nl
      @ ''1. Work on ONE action at a time, even if multiple actions are mentioned'' @ nl
      @ ''2. If multiple actions are mentioned, pick the first one mentioned'' @ nl
      @ ''3. Extract parameters from the conversation for the selected action'' @ nl
      @ ''4. If you need more information, ask specific questions'' @ nl
      @ ''5. When an action is complete, you can ask '' @ dq
      @ ''Do you have any other requirements?'' @ dq @ nl @ nl @ ''RESPONSE FORMAT:''
      @ nl @ ''You must respond with a valid JSON object in this exact format:'' @ nl
      @ ''{'' @ nl @ ''  '' @ dq @ ''action'' @ dq @ '': '' @ dq
      @ ''ACTION_NAME or null'' @ dq @ '','' @ nl @ ''  '' @ dq @ ''status'' @ dq
      @ '': '' @ dq @ ''NEEDS_INFO or READY'' @ dq @ '', '' @ nl @ ''  '' @ dq
      @ ''parameters'' @ dq @ '': {'' @ nl @ ''    '' @ dq @ ''param_name'' @ dq
      @ '': '' @ dq @ ''extracted_value or null'' @ dq @ nl @ ''  },'' @ nl @ ''  ''
      @ dq @ ''user_message'' @ dq @ '': '' @ dq @ ''Your response to the user'' @ dq
      @ nl @ ''}'' @ nl @ nl @ ''Available Actions:'' @ nl"

definition SystemPrompt_2 :: string where
  "SystemPrompt_2 = nl @ nl @ ''Current Conversation:'' @ nl"

definition SystemPrompt_3 :: string where
  "SystemPrompt_3 = nl @ nl
      @ ''Analyze the conversation and respond with the JSON format above.''"

definition FallbackMessage :: string where
  "FallbackMessage =
    ''I didn't understand your request clearly. Could you please rephrase what you'd like me to help you with regarding CDN setup or management?''"

text \<open>\<open>strings.Join(elems, sep)\<close>.\<close>

fun Join :: "string list \<Rightarrow> string \<Rightarrow> string" where
  "Join [] sep = []"
| "Join [x] sep = x"
| "Join (x # y # ys) sep = x @ sep @ Join (y # ys) sep"

text \<open>The loops over a \<open>strings.Builder\<close> are recursions that append one formatted line per element.\<close>

fun buildActionsSection :: "ActionSchema list \<Rightarrow> string" where
  "buildActionsSection [] = []"
| "buildActionsSection (action # actions) =
     (''- '' @ as_Action action @ '': requires ['' @ Join (as_Parameters action) '', '' @ '']'' @ nl)
       @ buildActionsSection actions"

text \<open>
  \<open>strings.Title\<close> (title-casing by Unicode word boundaries) is a library function; it is the
  parameter \<open>Title\<close> of the functions that use it.
\<close>

fun conversationLines :: "(string \<Rightarrow> string) \<Rightarrow> ConversationMessage list \<Rightarrow> string" where
  "conversationLines Title [] = []"
| "conversationLines Title (msg # history) =
     (Title (cm_Role msg) @ '': '' @ cm_Message msg @ nl) @ conversationLines Title history"

definition buildConversationSection ::
  "(string \<Rightarrow> string) \<Rightarrow> ConversationMessage list \<Rightarrow> string \<Rightarrow> string" where
  "buildConversationSection Title history currentMessage =
     conversationLines Title history @ (''User: '' @ currentMessage @ nl)"

definition BuildIntentPrompt :: "(string \<Rightarrow> string) \<Rightarrow> IntentRequest \<Rightarrow> string" where
  "BuildIntentPrompt Title request =
     (let actionsSection = buildActionsSection (AvailableActions request);
          conversationSection =
            buildConversationSection Title (ConversationHistory request) (req_UserMessage request)
      in SystemPrompt_1 @ actionsSection @ SystemPrompt_2 @ conversationSection @ SystemPrompt_3)"

text \<open>
  \<open>strings.Index(content, "{")\<close> and \<open>strings.LastIndex(content, "}")\<close>: the position of the
  first, respectively last, occurrence of a byte, or \<open>-1\<close>.
\<close>

fun Index :: "string \<Rightarrow> char \<Rightarrow> int" where
  "Index [] c = -1"
| "Index (x # xs) c = (if x = c then 0 else (let i = Index xs c in if i = -1 then -1 else i + 1))"

fun LastIndex :: "string \<Rightarrow> char \<Rightarrow> int" where
  "LastIndex [] c = -1"
| "LastIndex (x # xs) c =
     (let i = LastIndex xs c in if i \<noteq> -1 then i + 1 else if x = c then 0 else -1)"

text \<open>The slice \<open>content[start : end+1]\<close> is taken only when \<open>0 \<le> start < end < len(content)\<close>.\<close>

definition extractJSON :: "string \<Rightarrow> string" where
  "extractJSON content =
     (let start = Index content CHR ''{'' in
      if start = -1 then []
      else let end = LastIndex content CHR ''}'' in
        if end = -1 \<or> end \<le> start then []
        else take (nat (end + 1) - nat start) (drop (nat start) content))"

text \<open>
  \<open>json.Unmarshal\<close> into a zero \<open>IntentResponse\<close> is a library function of the payload bytes:
  the parameter \<open>Unmarshal\<close> returns the error text or the decoded value.
\<close>

definition ParseLLMResponse ::
  "(string \<Rightarrow> string + IntentResponse) \<Rightarrow> string \<Rightarrow> string + IntentResponse" where
  "ParseLLMResponse Unmarshal content =
     (let jsonContent = extractJSON content in
      if jsonContent = [] then Inl ''no valid JSON found in response''
      else case Unmarshal jsonContent of
        Inl err \<Rightarrow> Inl (''failed to parse JSON: '' @ err)
      | Inr response \<Rightarrow>
          (let response1 =
                 (if Status response = [] then
                    response\<lparr>Status := StatusError, UserMessage := FallbackMessage\<rparr>
                  else response);
               response2 =
                 (if Parameters response1 = None then response1\<lparr>Parameters := Some Map.empty\<rparr>
                  else response1)
           in Inr response2))"

section \<open>The intent handler (package handlers)\<close>

definition validateRequest :: "IntentRequest \<Rightarrow> string option" where
  "validateRequest request =
     (if req_SessionID request = [] then Some ''session_id is required''
      else if req_UserMessage request = [] then Some ''user_message is required''
      else None)"

text \<open>
  The body of \<open>callLLM\<close> in the source is a placeholder that answers every request with one
  fixed completion (\<open>placeholder_backend\<close>). The model takes the completion backend as a
  parameter, so that the error branch of \<open>ProcessIntent\<close> is reachable, and records every
  invocation in a call log, so that "a call was made" is observable.
\<close>

type_synonym backend = "LLMRequest \<Rightarrow> string + LLMResponse"

definition placeholder_Content :: string where
  "placeholder_Content = ''{'' @ dq @ ''action'' @ dq @ '': '' @ dq @ ''CREATE_SERVICE''
      @ dq @ '', '' @ dq @ ''status'' @ dq @ '': '' @ dq @ ''NEEDS_INFO'' @ dq @ '', ''
      @ dq @ ''parameters'' @ dq @ '': {'' @ dq @ ''domain_name'' @ dq @ '': null}, ''
      @ dq @ ''user_message'' @ dq @ '': '' @ dq
      @ ''I can help you setup a CDN! What would you like to name your service?'' @ dq
      @ ''}''"

definition placeholder_backend :: backend where
  "placeholder_backend request =
     Inr \<lparr>llm_Content = placeholder_Content,
          llm_Usage = Some \<lparr>InputTokens = 100, OutputTokens = 50\<rparr>\<rparr>"

definition callLLM ::
  "backend \<Rightarrow> LLMRequest \<Rightarrow> LLMRequest list \<Rightarrow> (string + LLMResponse) \<times> LLMRequest list" where
  "callLLM backend request calls = (backend request, calls @ [request])"

definition validStatuses :: "string \<Rightarrow> bool" where
  "validStatuses s = (s = StatusNeedsInfo \<or> s = StatusReady \<or> s = StatusError)"

definition validateAndCleanResponse :: "IntentResponse \<Rightarrow> IntentResponse" where
  "validateAndCleanResponse response =
     (let response1 =
            (if \<not> validStatuses (Status response) then
               response\<lparr>Status := StatusError, UserMessage := FallbackMessage\<rparr>
             else response);
          response2 =
            (if Parameters response1 = None then response1\<lparr>Parameters := Some Map.empty\<rparr>
             else response1)
      in if UserMessage response2 = [] then
           response2\<lparr>UserMessage := ''How can I help you with your CDN setup?''\<rparr>
         else response2)"

definition createErrorResponse :: "IntentRequest \<Rightarrow> string \<Rightarrow> string \<Rightarrow> IntentResponse" where
  "createErrorResponse request errorCode errorMessage =
     \<lparr>SessionID = req_SessionID request,
      Action = None,
      Status = StatusError,
      Parameters = Some Map.empty,
      UserMessage = FallbackMessage,
      ErrorCode = Some errorCode,
      ErrorMessage = Some errorMessage\<rparr>"

definition buildLLMRequest :: "(string \<Rightarrow> string) \<Rightarrow> IntentRequest \<Rightarrow> LLMRequest" where
  "buildLLMRequest Title request =
     \<lparr>Prompt = BuildIntentPrompt Title request,
      llm_ConversationHistory = ConversationHistory request,
      MaxTokens = 1000,
      Temperature = 1 / 10\<rparr>"

text \<open>
  \<open>ProcessIntent\<close> returns a response and a Go error; the result is \<open>Inl\<close> for a non-nil
  error and \<open>Inr\<close> for a response, paired with the call log afterwards.
\<close>

definition ProcessIntent ::
  "(string \<Rightarrow> string) \<Rightarrow> backend \<Rightarrow> (string \<Rightarrow> string + IntentResponse) \<Rightarrow>
   IntentRequest \<Rightarrow> LLMRequest list \<Rightarrow> (string + IntentResponse) \<times> LLMRequest list" where
  "ProcessIntent Title backend Unmarshal request calls =
     (case validateRequest request of
        Some err \<Rightarrow> (Inr (createErrorResponse request ErrorParseError err), calls)
      | None \<Rightarrow>
          (case callLLM backend (buildLLMRequest Title request) calls of
             (Inl err, calls') \<Rightarrow> (Inr (createErrorResponse request ErrorLLMFailed err), calls')
           | (Inr llmResponse, calls') \<Rightarrow>
               (case ParseLLMResponse Unmarshal (llm_Content llmResponse) of
                  Inl err \<Rightarrow>
                    (Inr (createErrorResponse request ErrorParseError
                            ''Failed to understand response''), calls')
                | Inr response \<Rightarrow>
                    (Inr (validateAndCleanResponse
                            (response\<lparr>SessionID := req_SessionID request\<rparr>)), calls'))))"

text \<open>The zero value of the response struct, as \<open>var response models.IntentResponse\<close> declares it.\<close>

definition zero_IntentResponse :: IntentResponse where
  "zero_IntentResponse =
     \<lparr>SessionID = [], Action = None, Status = [], Parameters = None, UserMessage = [],
      ErrorCode = None, ErrorMessage = None\<rparr>"

section \<open>The request dispatcher (package transport)\<close>

text \<open>
  The reply is the response handed to \<open>sendResponse\<close>. \<open>json.Unmarshal\<close> of the inbound bytes
  is the parameter \<open>UnmarshalRequest\<close>: it returns the error, if any, and the request as far
  as it was filled in.
\<close>

definition sendErrorResponse :: "IntentRequest \<Rightarrow> string \<Rightarrow> string \<Rightarrow> IntentResponse" where
  "sendErrorResponse request errorCode errorMessage =
     \<lparr>SessionID = req_SessionID request,
      Action = None,
      Status = StatusError,
      Parameters = Some Map.empty,
      UserMessage =
        ''I'm sorry, I encountered an error processing your request. Please try again.'',
      ErrorCode = Some errorCode,
      ErrorMessage = Some errorMessage\<rparr>"

definition handleIntentRequest ::
  "(string \<Rightarrow> string option \<times> IntentRequest) \<Rightarrow> (string \<Rightarrow> string) \<Rightarrow> backend \<Rightarrow>
   (string \<Rightarrow> string + IntentResponse) \<Rightarrow> string \<Rightarrow> LLMRequest list \<Rightarrow>
   IntentResponse \<times> LLMRequest list" where
  "handleIntentRequest UnmarshalRequest Title backend Unmarshal data calls =
     (case UnmarshalRequest data of
        (Some err, request) \<Rightarrow>
          (sendErrorResponse request ErrorParseError ''Invalid request format'', calls)
      | (None, request) \<Rightarrow>
          (case ProcessIntent Title backend Unmarshal request calls of
             (Inl err, calls') \<Rightarrow> (sendErrorResponse request ErrorLLMFailed err, calls')
           | (Inr response, calls') \<Rightarrow> (response, calls')))"

section \<open>Conversation storage (package memory)\<close>

text \<open>
  A \<open>time.Time\<close> is an instant on the time line and a \<open>time.Duration\<close> a span of it, both
  counted in nanoseconds.
\<close>

type_synonym time = int

record Message =
  Role :: string
  Content :: string
  Timestamp :: time

record Metadata =
  StartedAt :: time
  LastActivity :: time
  MessageCount :: int

record SessionData =
  sd_SessionID :: string
  UserID :: string
  Messages :: "Message list"
  sd_Metadata :: Metadata

text \<open>The chat messages of the conversation buffer (the three kinds the manager creates).\<close>

datatype ChatMessage =
  HumanChatMessage string
| AIChatMessage string
| SystemChatMessage string

text \<open>
  The state the memory package works on. \<open>kv\<close> is the contents of the Redis server: per key
  a value and the instant after which the key is expired (none for a key written without
  expiry). \<open>redis_fault\<close> is the error of every command while the server does not answer.
  \<open>clock\<close> lists the instants of the successive time-dependent events, which are the
  readings of \<open>time.Now()\<close> and the commands the server executes, and \<open>now_ix\<close> is the
  position of the next one: an event takes place at \<open>clock st (now_ix st)\<close>, and \<open>tick\<close>
  moves on to the next. The process and the server are taken to tell the same time.
  \<open>sessions\<close> is the manager's cache of conversation buffers; a buffer in the cache is shared
  by pointer in the source, and the model writes a changed buffer back into the cache.
\<close>

record 'b state =
  kv :: "string \<rightharpoonup> 'b \<times> time option"
  redis_fault :: "string option"
  clock :: "nat \<Rightarrow> time"
  now_ix :: nat
  sessions :: "string \<rightharpoonup> ChatMessage list"

text \<open>
  What the store is configured with: the time to live (zero for keys that do not expire),
  and \<open>json.Marshal\<close> and \<open>json.Unmarshal\<close> for a \<open>SessionData\<close>, which are library
  functions. \<open>'b\<close> is the type of the stored bytes.
\<close>

record 'b config =
  ttl :: nat
  json_Marshal :: "SessionData \<Rightarrow> string + 'b"
  json_Unmarshal :: "'b \<Rightarrow> string + SessionData"

definition tick :: "'b state \<Rightarrow> 'b state" where
  "tick st = st\<lparr>now_ix := Suc (now_ix st)\<rparr>"

definition time_Now :: "'b state \<Rightarrow> time \<times> 'b state" where
  "time_Now st = (clock st (now_ix st), tick st)"

text \<open>
  The server answers \<open>GET\<close> at the current instant: a key whose expiry instant is past is
  gone. \<open>SET\<close> with a time to live stores the value with the expiry instant that lies this
  span after the current instant.
\<close>

definition expired :: "time \<Rightarrow> time option \<Rightarrow> bool" where
  "expired t expiry = (case expiry of None \<Rightarrow> False | Some w \<Rightarrow> w < t)"

datatype 'b get_result = RedisNil | RedisError string | RedisValue 'b

definition redis_Get :: "'b state \<Rightarrow> string \<Rightarrow> 'b get_result" where
  "redis_Get st key =
     (case redis_fault st of
        Some err \<Rightarrow> RedisError err
      | None \<Rightarrow>
          (case kv st key of
             None \<Rightarrow> RedisNil
           | Some (data, expiry) \<Rightarrow>
               if expired (clock st (now_ix st)) expiry then RedisNil else RedisValue data))"

definition redis_Set :: "'b state \<Rightarrow> string \<Rightarrow> 'b \<Rightarrow> nat \<Rightarrow> string option \<times> 'b state" where
  "redis_Set st key data t =
     (case redis_fault st of
        Some err \<Rightarrow> (Some err, tick st)
      | None \<Rightarrow>
          (None, (tick st)\<lparr>kv := (kv st)(key \<mapsto>
                    (data, if t = 0 then None else Some (clock st (now_ix st) + int t)))\<rparr>))"

definition sessionKey :: "string \<Rightarrow> string" where
  "sessionKey sessionID = ''session:'' @ sessionID"

definition LoadSession :: "'b config \<Rightarrow> 'b state \<Rightarrow> string \<Rightarrow> (string + SessionData) \<times> 'b state" where
  "LoadSession cfg st sessionID =
     (let key = sessionKey sessionID; st0 = tick st in
      case redis_Get st key of
        RedisNil \<Rightarrow>
          (case time_Now st0 of (t1, st1) \<Rightarrow>
           case time_Now st1 of (t2, st2) \<Rightarrow>
             (Inr \<lparr>sd_SessionID = sessionID, UserID = [], Messages = [],
                   sd_Metadata = \<lparr>StartedAt = t1, LastActivity = t2, MessageCount = 0\<rparr>\<rparr>, st2))
      | RedisError err \<Rightarrow> (Inl (''failed to load session from Redis: '' @ err), st0)
      | RedisValue data \<Rightarrow>
          (case json_Unmarshal cfg data of
             Inl err \<Rightarrow> (Inl (''failed to parse session data: '' @ err), st0)
           | Inr session \<Rightarrow> (Inr session, st0)))"

definition saveSession :: "'b config \<Rightarrow> 'b state \<Rightarrow> SessionData \<Rightarrow> string option \<times> 'b state" where
  "saveSession cfg st session =
     (let key = sessionKey (sd_SessionID session) in
      case json_Marshal cfg session of
        Inl err \<Rightarrow> (Some (''failed to marshal session: '' @ err), st)
      | Inr data \<Rightarrow>
          (case redis_Set st key data (ttl cfg) of
             (Some err, st1) \<Rightarrow> (Some (''failed to save session to Redis: '' @ err), st1)
           | (None, st1) \<Rightarrow> (None, st1)))"

definition SaveMessage ::
  "'b config \<Rightarrow> 'b state \<Rightarrow> string \<Rightarrow> string \<Rightarrow> Message \<Rightarrow> string option \<times> 'b state" where
  "SaveMessage cfg st sessionID userID msg =
     (case LoadSession cfg st sessionID of
        (Inl err, st1) \<Rightarrow> (Some (''failed to load session: '' @ err), st1)
      | (Inr session, st1) \<Rightarrow>
          (let session1 = (if UserID session = [] then session\<lparr>UserID := userID\<rparr> else session);
               session2 = session1\<lparr>Messages := Messages session1 @ [msg]\<rparr>
           in case time_Now st1 of (now, st2) \<Rightarrow>
             (let session3 = session2\<lparr>sd_Metadata := (sd_Metadata session2)
                    \<lparr>LastActivity := now, MessageCount := int (length (Messages session2))\<rparr>\<rparr>;
                  session4 =
                    (if MessageCount (sd_Metadata session3) = 1 then
                       session3\<lparr>sd_Metadata := (sd_Metadata session3)\<lparr>StartedAt := Timestamp msg\<rparr>\<rparr>
                     else session3)
              in saveSession cfg st2 session4)))"

text \<open>
  The replay loop of \<open>GetOrCreateSession\<close>. \<open>AddMessage\<close> on the in-memory chat history
  appends and returns no error, so its error branch does not occur.
\<close>

fun load_messages :: "Message list \<Rightarrow> ChatMessage list \<Rightarrow> ChatMessage list" where
  "load_messages [] mem = mem"
| "load_messages (msg # msgs) mem =
     (if Role msg = ''user'' then load_messages msgs (mem @ [HumanChatMessage (Content msg)])
      else if Role msg = ''assistant'' then load_messages msgs (mem @ [AIChatMessage (Content msg)])
      else if Role msg = ''system'' then load_messages msgs (mem @ [SystemChatMessage (Content msg)])
      else load_messages msgs mem)"

definition GetOrCreateSession ::
  "'b config \<Rightarrow> 'b state \<Rightarrow> string \<Rightarrow> (string + ChatMessage list) \<times> 'b state" where
  "GetOrCreateSession cfg st sessionID =
     (case sessions st sessionID of
        Some mem \<Rightarrow> (Inr mem, st)
      | None \<Rightarrow>
          (case LoadSession cfg st sessionID of
             (Inl err, st1) \<Rightarrow> (Inl (''failed to load session: '' @ err), st1)
           | (Inr sessionData, st1) \<Rightarrow>
               (let mem = load_messages (Messages sessionData) []
                in (Inr mem, st1\<lparr>sessions := (sessions st1)(sessionID \<mapsto> mem)\<rparr>))))"

definition SaveUserMessage ::
  "'b config \<Rightarrow> 'b state \<Rightarrow> string \<Rightarrow> string \<Rightarrow> string \<Rightarrow> string option \<times> 'b state" where
  "SaveUserMessage cfg st sessionID userID message =
     (case GetOrCreateSession cfg st sessionID of
        (Inl err, st1) \<Rightarrow> (Some err, st1)
      | (Inr mem, st1) \<Rightarrow>
          (let st2 = st1\<lparr>sessions := (sessions st1)(sessionID \<mapsto> mem @ [HumanChatMessage message])\<rparr>
           in case time_Now st2 of (now, st3) \<Rightarrow>
             (case SaveMessage cfg st3 sessionID userID
                     \<lparr>Role = ''user'', Content = message, Timestamp = now\<rparr> of
                (Some err, st4) \<Rightarrow> (Some (''failed to save message to Redis: '' @ err), st4)
              | (None, st4) \<Rightarrow> (None, st4))))"

definition SaveAssistantMessage ::
  "'b config \<Rightarrow> 'b state \<Rightarrow> string \<Rightarrow> string \<Rightarrow> string \<Rightarrow> string option \<times> 'b state" where
  "SaveAssistantMessage cfg st sessionID userID message =
     (case GetOrCreateSession cfg st sessionID of
        (Inl err, st1) \<Rightarrow> (Some err, st1)
      | (Inr mem, st1) \<Rightarrow>
          (let st2 = st1\<lparr>sessions := (sessions st1)(sessionID \<mapsto> mem @ [AIChatMessage message])\<rparr>
           in case time_Now st2 of (now, st3) \<Rightarrow>
             (case SaveMessage cfg st3 sessionID userID
                     \<lparr>Role = ''assistant'', Content = message, Timestamp = now\<rparr> of
                (Some err, st4) \<Rightarrow> (Some (''failed to save message to Redis: '' @ err), st4)
              | (None, st4) \<Rightarrow> (None, st4))))"

fun format_messages :: "ChatMessage list \<Rightarrow> string" where
  "format_messages [] = []"
| "format_messages (HumanChatMessage c # msgs) = (''User: '' @ c @ nl) @ format_messages msgs"
| "format_messages (AIChatMessage c # msgs) = (''Assistant: '' @ c @ nl) @ format_messages msgs"
| "format_messages (SystemChatMessage c # msgs) = (''System: '' @ c @ nl) @ format_messages msgs"

definition GetFormattedHistory ::
  "'b config \<Rightarrow> 'b state \<Rightarrow> string \<Rightarrow> (string + string) \<times> 'b state" where
  "GetFormattedHistory cfg st sessionID =
     (case GetOrCreateSession cfg st sessionID of
        (Inl err, st1) \<Rightarrow> (Inl err, st1)
      | (Inr messages, st1) \<Rightarrow>
          (if length messages = 0 then (Inr ''No previous conversation.'', st1)
           else (Inr (format_messages messages), st1)))"

text \<open>
  Two readers used to state properties: the record that the store holds for a session
  (until it expires), and a sequence of appends performed one after the other, stopping at
  the first error. How much time goes by between two appends is in the clock.
\<close>

definition persisted :: "'b config \<Rightarrow> 'b state \<Rightarrow> string \<Rightarrow> SessionData option" where
  "persisted cfg st sessionID =
     (case kv st (sessionKey sessionID) of
        None \<Rightarrow> None
      | Some (data, expiry) \<Rightarrow>
          (case json_Unmarshal cfg data of Inl err \<Rightarrow> None | Inr session \<Rightarrow> Some session))"


section \<open>The memory-integrated completion binding (package llm)\<close>

record AnthropicMessage =
  am_Role :: string
  am_Content :: string

record AnthropicRequest =
  ar_Model :: string
  ar_MaxTokens :: int
  ar_Temperature :: rat
  ar_Messages :: "AnthropicMessage list"

record ContentBlock =
  cb_Type :: string
  cb_Text :: string

record AnthropicResponse =
  resp_ID :: string
  resp_Type :: string
  resp_Role :: string
  resp_Content :: "ContentBlock list"
  resp_Model :: string
  resp_Usage :: Usage
  resp_StopReason :: string

record AnthropicError =
  ae_Type :: string
  ae_Message :: string

text \<open>
  The exchange with the completion backend is outside the program. Its outcome for a request
  is the first failing step among \<open>json.Marshal\<close>, \<open>http.NewRequestWithContext\<close>,
  \<open>client.Do\<close> (which also fails when the context's deadline expires) and \<open>io.ReadAll\<close>,
  with the error text, or else the status code and the body that was read.
\<close>

datatype exchange_result =
  MarshalFailed string
| NewRequestFailed string
| DoFailed string
| ReadFailed string
| Replied nat string

record provider_io =
  exchange :: "AnthropicRequest \<Rightarrow> exchange_result"
  unmarshal_error :: "string \<Rightarrow> string + AnthropicError"
  unmarshal_response :: "string \<Rightarrow> string + AnthropicResponse"
  unmarshal_intent :: "string \<Rightarrow> string + IntentResponse"

text \<open>The format string of \<open>buildPromptWithHistory\<close> has three \<open>%s\<close> verbs.\<close>

definition HistoryPrompt_1 :: string where
  "HistoryPrompt_1 =
    ''You are an AI assistant for CDNbuddy, a CDN management platform. Your job is to analyze user conversations and determine what CDN-related actions they want to perform.''
      @ nl @ nl @ ''IMPORTANT RULES:'' @ nl
      @ ''1. Work on ONE action at a time, even if multiple actions are mentioned'' @ nl
      @ ''2. If multiple actions are mentioned, pick the first one mentioned'' @ nl
      @ ''3. Extract parameters from the conversation for the selected action'' @ nl
      @ ''4. If you need more information, ask specific questions'' @ nl
      @ ''5. When an action is complete, you can ask '' @ dq
      @ ''Do you have any other requirements?'' @ dq @ nl
      @ ''6. IMPORTANT: Review the ENTIRE conversation history before responding - don't ask for information already provided''
      @ nl @ nl @ ''RESPONSE FORMAT:'' @ nl
      @ ''You must respond with a valid JSON object in this exact format:'' @ nl @ ''{''
      @ nl @ '' '' @ dq @ ''action'' @ dq @ '': '' @ dq @ ''ACTION_NAME or null'' @ dq
      @ '','' @ nl @ '' '' @ dq @ ''status'' @ dq @ '': '' @ dq
      @ ''NEEDS_INFO or READY'' @ dq @ '','' @ nl @ '' '' @ dq @ ''parameters'' @ dq
      @ '': {'' @ nl @ '' '' @ dq @ ''param_name'' @ dq @ '': '' @ dq
      @ ''extracted_value or null'' @ dq @ nl @ '' },'' @ nl @ '' '' @ dq
      @ ''user_message'' @ dq @ '': '' @ dq @ ''Your response to the user'' @ dq @ nl
      @ ''}'' @ nl @ nl @ ''Available Actions:'' @ nl"

definition HistoryPrompt_2 :: string where
  "HistoryPrompt_2 = nl @ nl @ ''Conversation History:'' @ nl"

definition HistoryPrompt_3 :: string where
  "HistoryPrompt_3 = nl @ nl @ ''Current User Message: ''"

definition HistoryPrompt_4 :: string where
  "HistoryPrompt_4 = nl @ nl
      @ ''Analyze the FULL conversation history above and respond with the JSON format. Remember to check what information was already provided in previous messages.''"

definition buildPromptWithHistory :: "IntentRequest \<Rightarrow> string \<Rightarrow> string" where
  "buildPromptWithHistory request formattedHistory =
     (let actionsSection = buildActionsSection (AvailableActions request)
      in HistoryPrompt_1 @ actionsSection @ HistoryPrompt_2 @ formattedHistory
           @ HistoryPrompt_3 @ req_UserMessage request @ HistoryPrompt_4)"

definition parseIntentResponse ::
  "(string \<Rightarrow> string + IntentResponse) \<Rightarrow> string \<Rightarrow> string + IntentResponse" where
  "parseIntentResponse Unmarshal content =
     (let jsonContent = extractJSON content in
      if jsonContent = [] then Inl ''no valid JSON found in response''
      else case Unmarshal jsonContent of
        Inl err \<Rightarrow> Inl (''failed to parse JSON: '' @ err)
      | Inr response \<Rightarrow>
          (let response1 =
                 (if Status response = [] then
                    response\<lparr>Status := StatusError, UserMessage := FallbackMessage\<rparr>
                  else response);
               response2 =
                 (if Parameters response1 = None then response1\<lparr>Parameters := Some Map.empty\<rparr>
                  else response1)
           in Inr response2))"

text \<open>Decimal digits of a status code, as \<open>%d\<close> prints them.\<close>

fun itoa :: "nat \<Rightarrow> string" where
  "itoa n = (if n < 10 then [char_of (48 + n)] else itoa (n div 10) @ [char_of (48 + n mod 10)])"

definition AnalyzeIntent ::
  "'b config \<Rightarrow> provider_io \<Rightarrow> string \<Rightarrow> 'b state \<Rightarrow> IntentRequest \<Rightarrow>
   (string + IntentResponse) \<times> 'b state" where
  "AnalyzeIntent cfg io model st request =
     (let userID = ''user_'' @ req_SessionID request in
      case SaveUserMessage cfg st (req_SessionID request) userID (req_UserMessage request) of
        (saveErr, st1) \<Rightarrow>
      case GetFormattedHistory cfg st1 (req_SessionID request) of
        (history, st2) \<Rightarrow>
      (let formattedHistory =
             (case history of Inl err \<Rightarrow> ''No previous conversation.'' | Inr formatted \<Rightarrow> formatted);
           prompt = buildPromptWithHistory request formattedHistory;
           anthropicReq =
             \<lparr>ar_Model = model, ar_MaxTokens = 1000, ar_Temperature = 1 / 10,
              ar_Messages = [\<lparr>am_Role = ''user'', am_Content = prompt\<rparr>]\<rparr>
       in case exchange io anthropicReq of
            MarshalFailed err \<Rightarrow> (Inl (''failed to marshal request: '' @ err), st2)
          | NewRequestFailed err \<Rightarrow> (Inl (''failed to create HTTP request: '' @ err), st2)
          | DoFailed err \<Rightarrow> (Inl (''failed to make HTTP request: '' @ err), st2)
          | ReadFailed err \<Rightarrow> (Inl (''failed to read response body: '' @ err), st2)
          | Replied statusCode body \<Rightarrow>
              (if statusCode \<noteq> 200 then
                 (case unmarshal_error io body of
                    Inl err \<Rightarrow>
                      (Inl (''API request failed with status '' @ itoa statusCode @ '': '' @ body), st2)
                  | Inr anthropicErr \<Rightarrow>
                      (Inl (''anthropic API error: '' @ ae_Message anthropicErr), st2))
               else
                 (case unmarshal_response io body of
                    Inl err \<Rightarrow> (Inl (''failed to parse response: '' @ err), st2)
                  | Inr anthropicResp \<Rightarrow>
                      (let content =
                             (case resp_Content anthropicResp of [] \<Rightarrow> [] | block # rest \<Rightarrow> cb_Text block)
                       in case parseIntentResponse (unmarshal_intent io) content of
                            Inl err \<Rightarrow> (Inl (''failed to parse intent response: '' @ err), st2)
                          | Inr parsed \<Rightarrow>
                              (let intentResponse = parsed\<lparr>SessionID := req_SessionID request\<rparr>
                               in if UserMessage intentResponse \<noteq> [] then
                                    (case SaveAssistantMessage cfg st2 (req_SessionID request) userID
                                            (UserMessage intentResponse) of
                                       (saveErr2, st3) \<Rightarrow> (Inr intentResponse, st3))
                                  else (Inr intentResponse, st2)))))))"

text \<open>
  The replay as the specification words it: the messages whose role is \<open>user\<close>,
  \<open>assistant\<close> or \<open>system\<close>, in their original order, each as a role-tagged turn.
\<close>

definition known_role :: "string \<Rightarrow> bool" where
  "known_role r = (r = ''user'' \<or> r = ''assistant'' \<or> r = ''system'')"

definition to_chat :: "Message \<Rightarrow> ChatMessage" where
  "to_chat msg =
     (if Role msg = ''user'' then HumanChatMessage (Content msg)
      else if Role msg = ''assistant'' then AIChatMessage (Content msg)
      else SystemChatMessage (Content msg))"

definition replay_spec :: "Message list \<Rightarrow> ChatMessage list" where
  "replay_spec msgs = map to_chat (filter (\<lambda>msg. known_role (Role msg)) msgs)"

text \<open>
  Concrete values for the examples: a configuration with a time to live of thirty minutes
  whose codec stores the record itself, the state of a fresh process in front of an empty
  store, with a clock that advances by one at every event, and a stored record with three
  messages, one of them with a role outside the three known ones.
\<close>

definition example_config :: "SessionData config" where
  "example_config = \<lparr>ttl = 1800000000000, json_Marshal = Inr, json_Unmarshal = Inr\<rparr>"

definition fresh_state :: "'b state" where
  "fresh_state =
     \<lparr>kv = Map.empty, redis_fault = None, clock = (\<lambda>n. int n), now_ix = 0,
      sessions = Map.empty\<rparr>"

definition example_record :: SessionData where
  "example_record =
     \<lparr>sd_SessionID = ''s1'', UserID = ''user_s1'',
      Messages = [\<lparr>Role = ''user'', Content = ''hello'', Timestamp = 1\<rparr>,
                  \<lparr>Role = ''tool'', Content = ''lookup'', Timestamp = 2\<rparr>,
                  \<lparr>Role = ''assistant'', Content = ''hi'', Timestamp = 3\<rparr>],
      sd_Metadata = \<lparr>StartedAt = 1, LastActivity = 3, MessageCount = 3\<rparr>\<rparr>"

definition example_state :: "SessionData state" where
  "example_state =
     fresh_state\<lparr>kv := [sessionKey ''s1'' \<mapsto> (example_record, Some 1800000000000)]\<rparr>"

section \<open>The JSON codec of the session store (package encoding/json)\<close>

text \<open>
  Modelled from the documentation of the library, which is not part of the repository.
  \<open>json.Marshal\<close> writes a string as JSON text and coerces it to valid UTF-8 on the way:
  every byte that does not begin a well-formed UTF-8 sequence is replaced by the
  replacement character U+FFFD, whose UTF-8 form is the three bytes \<open>EF BF BD\<close>; well-formed
  sequences and the rest of the record (the order of the messages, the instants, the count)
  are kept, and \<open>json.Unmarshal\<close> returns what the text denotes. The stored text is
  represented by the record it denotes. A time whose year lies outside 0..9999 makes
  \<open>json.Marshal\<close> fail, so nothing is written; this failure is left out.
\<close>

definition in_range :: "nat \<Rightarrow> nat \<Rightarrow> char \<Rightarrow> bool" where
  "in_range lo hi c = (lo \<le> of_char c \<and> (of_char c :: nat) \<le> hi)"

text \<open>
  \<open>rune_len\<close> is the width of the well-formed UTF-8 sequence at the head of a string, or
  zero when there is none (the cases of \<open>utf8.DecodeRuneInString\<close>: no overlong forms, no
  surrogates, nothing above U+10FFFF).
\<close>

definition tail2 :: "nat \<Rightarrow> nat \<Rightarrow> string \<Rightarrow> nat" where
  "tail2 lo hi bs = (case bs of b # rest \<Rightarrow> if in_range lo hi b then 2 else 0 | [] \<Rightarrow> 0)"

definition tail3 :: "nat \<Rightarrow> nat \<Rightarrow> string \<Rightarrow> nat" where
  "tail3 lo hi bs =
     (case bs of
        b # c # rest \<Rightarrow> if in_range lo hi b \<and> in_range 0x80 0xBF c then 3 else 0
      | _ \<Rightarrow> 0)"

definition tail4 :: "nat \<Rightarrow> nat \<Rightarrow> string \<Rightarrow> nat" where
  "tail4 lo hi bs =
     (case bs of
        b # c # d # rest \<Rightarrow>
          if in_range lo hi b \<and> in_range 0x80 0xBF c \<and> in_range 0x80 0xBF d then 4 else 0
      | _ \<Rightarrow> 0)"

definition rune_len :: "string \<Rightarrow> nat" where
  "rune_len s =
     (case s of
        [] \<Rightarrow> 0
      | a # bs \<Rightarrow>
          if in_range 0x00 0x7F a then 1
          else if in_range 0xC2 0xDF a then tail2 0x80 0xBF bs
          else if in_range 0xE0 0xE0 a then tail3 0xA0 0xBF bs
          else if in_range 0xE1 0xEC a then tail3 0x80 0xBF bs
          else if in_range 0xED 0xED a then tail3 0x80 0x9F bs
          else if in_range 0xEE 0xEF a then tail3 0x80 0xBF bs
          else if in_range 0xF0 0xF0 a then tail4 0x90 0xBF bs
          else if in_range 0xF1 0xF3 a then tail4 0x80 0xBF bs
          else if in_range 0xF4 0xF4 a then tail4 0x80 0x8F bs
          else 0)"

definition replacement :: string where
  "replacement = [CHR 0xEF, CHR 0xBF, CHR 0xBD]"

fun to_valid_utf8 :: "string \<Rightarrow> string" where
  "to_valid_utf8 [] = []"
| "to_valid_utf8 (a # bs) =
     (if rune_len (a # bs) = 0 then replacement @ to_valid_utf8 bs
      else take (rune_len (a # bs)) (a # bs) @ to_valid_utf8 (drop (rune_len (a # bs)) (a # bs)))"

fun valid_utf8 :: "string \<Rightarrow> bool" where
  "valid_utf8 [] = True"
| "valid_utf8 (a # bs) =
     (if rune_len (a # bs) = 0 then False else valid_utf8 (drop (rune_len (a # bs)) (a # bs)))"

definition sanitize_message :: "Message \<Rightarrow> Message" where
  "sanitize_message msg =
     msg\<lparr>Role := to_valid_utf8 (Role msg), Content := to_valid_utf8 (Content msg)\<rparr>"

definition sanitize_record :: "SessionData \<Rightarrow> SessionData" where
  "sanitize_record s =
     s\<lparr>sd_SessionID := to_valid_utf8 (sd_SessionID s), UserID := to_valid_utf8 (UserID s),
       Messages := map sanitize_message (Messages s)\<rparr>"

definition valid_record :: "SessionData \<Rightarrow> bool" where
  "valid_record s =
     (valid_utf8 (sd_SessionID s) \<and> valid_utf8 (UserID s)
      \<and> list_all (\<lambda>msg. valid_utf8 (Role msg) \<and> valid_utf8 (Content msg)) (Messages s))"

datatype session_json = SessionJSON SessionData

definition go_Marshal :: "SessionData \<Rightarrow> string + session_json" where
  "go_Marshal s = Inr (SessionJSON (sanitize_record s))"

fun go_Unmarshal :: "session_json \<Rightarrow> string + SessionData" where
  "go_Unmarshal (SessionJSON s) = Inr s"

definition go_config :: "nat \<Rightarrow> session_json config" where
  "go_config t = \<lparr>ttl = t, json_Marshal = go_Marshal, json_Unmarshal = go_Unmarshal\<rparr>"

text \<open>A record for the examples whose second message has a content that is not UTF-8.\<close>

definition latin1_record :: SessionData where
  "latin1_record =
     \<lparr>sd_SessionID = ''s1'', UserID = ''user_s1'',
      Messages = [\<lparr>Role = ''user'', Content = ''hello'', Timestamp = 1\<rparr>,
                  \<lparr>Role = ''assistant'', Content = [CHR ''n'', CHR 0xE9, CHR ''e''], Timestamp = 2\<rparr>],
      sd_Metadata = \<lparr>StartedAt = 1, LastActivity = 2, MessageCount = 2\<rparr>\<rparr>"

section \<open>Properties of the intent handler\<close>

lemma FallbackMessage_nonempty: "FallbackMessage \<noteq> []"
  by (simp add: FallbackMessage_def)

lemma createErrorResponse_fields:
  "Status (createErrorResponse request c m) = StatusError"
  "UserMessage (createErrorResponse request c m) = FallbackMessage"
  "Parameters (createErrorResponse request c m) = Some Map.empty"
  "ErrorCode (createErrorResponse request c m) = Some c"
  "ErrorMessage (createErrorResponse request c m) = Some m"
  "SessionID (createErrorResponse request c m) = req_SessionID request"
  by (simp_all add: createErrorResponse_def)

text \<open>
  Claim C7. A request whose \<open>session_id\<close> or \<open>user_message\<close> is empty is answered at once with
  an \<open>ERROR\<close> response carrying the error code \<open>PARSE_ERROR\<close>; the call log is returned
  unchanged, so the completion backend is not invoked.
\<close>

theorem invalid_request_parse_error:
  assumes "req_SessionID request = [] \<or> req_UserMessage request = []"
  shows "\<exists>r. ProcessIntent Title backend Unmarshal request calls = (Inr r, calls)
             \<and> Status r = StatusError \<and> ErrorCode r = Some ErrorParseError
             \<and> UserMessage r = FallbackMessage"
proof -
  from assms obtain err where "validateRequest request = Some err"
    by (cases "req_SessionID request = []") (simp_all add: validateRequest_def)
  then show ?thesis
    by (simp add: ProcessIntent_def createErrorResponse_fields)
qed

theorem invalid_request_parse_error_witness:
  "req_SessionID \<lparr>req_SessionID = [], req_UserMessage = ''hi'', ConversationHistory = [],
       AvailableActions = []\<rparr> = []
   \<and> (\<exists>r. ProcessIntent (\<lambda>s. s) placeholder_backend (\<lambda>p. Inl ''x'')
          \<lparr>req_SessionID = [], req_UserMessage = ''hi'', ConversationHistory = [],
            AvailableActions = []\<rparr> [] = (Inr r, [])
        \<and> Status r = StatusError \<and> ErrorCode r = Some ErrorParseError
        \<and> UserMessage r = FallbackMessage)"
  using invalid_request_parse_error [of "\<lparr>req_SessionID = [], req_UserMessage = ''hi'',
     ConversationHistory = [], AvailableActions = []\<rparr>" "\<lambda>s. s" placeholder_backend "\<lambda>p. Inl ''x''" "[]"]
  by simp

lemma validateAndCleanResponse_wf:
  "validStatuses (Status (validateAndCleanResponse r))"
  "Parameters (validateAndCleanResponse r) \<noteq> None"
  "UserMessage (validateAndCleanResponse r) \<noteq> []"
  by (auto simp: validateAndCleanResponse_def Let_def validStatuses_def FallbackMessage_nonempty)

lemma createErrorResponse_wf:
  "validStatuses (Status (createErrorResponse request c m))"
  "Parameters (createErrorResponse request c m) \<noteq> None"
  "UserMessage (createErrorResponse request c m) \<noteq> []"
  by (simp_all add: createErrorResponse_def validStatuses_def FallbackMessage_nonempty)

lemma ProcessIntent_cases:
  "(\<exists>c m. fst (ProcessIntent Title backend Unmarshal request calls)
            = Inr (createErrorResponse request c m))
   \<or> (validateRequest request = None
       \<and> (\<exists>resp p. backend (buildLLMRequest Title request) = Inr resp
             \<and> ParseLLMResponse Unmarshal (llm_Content resp) = Inr p
             \<and> fst (ProcessIntent Title backend Unmarshal request calls)
                 = Inr (validateAndCleanResponse (p\<lparr>SessionID := req_SessionID request\<rparr>))))"
  by (auto simp: ProcessIntent_def callLLM_def split: option.splits sum.splits)

text \<open>
  Claim C1. \<open>ProcessIntent\<close> returns a response for every request, never a Go error, and the
  response is well formed (known status, parameters present, message non-empty). When the
  request is invalid, the completion backend fails, or the completion cannot be parsed, the
  response has status \<open>ERROR\<close>, the fixed non-empty fallback message and an empty, non-nil
  parameters map.
\<close>

theorem process_total:
  "\<exists>r. fst (ProcessIntent Title backend Unmarshal request calls) = Inr r
     \<and> validStatuses (Status r) \<and> Parameters r \<noteq> None \<and> UserMessage r \<noteq> []
     \<and> ((validateRequest request \<noteq> None
          \<or> (\<exists>e. backend (buildLLMRequest Title request) = Inl e)
          \<or> (\<exists>resp e. backend (buildLLMRequest Title request) = Inr resp
                \<and> ParseLLMResponse Unmarshal (llm_Content resp) = Inl e))
         \<longrightarrow> Status r = StatusError \<and> UserMessage r = FallbackMessage
             \<and> FallbackMessage \<noteq> [] \<and> Parameters r = Some Map.empty)"
proof -
  let ?res = "fst (ProcessIntent Title backend Unmarshal request calls)"
  from ProcessIntent_cases [of Title backend Unmarshal request calls]
  show ?thesis
  proof
    assume "\<exists>c m. ?res = Inr (createErrorResponse request c m)"
    then obtain c m where "?res = Inr (createErrorResponse request c m)" by blast
    then show ?thesis
      by (simp add: createErrorResponse_fields FallbackMessage_nonempty validStatuses_def)
  next
    assume ok: "validateRequest request = None
       \<and> (\<exists>resp p. backend (buildLLMRequest Title request) = Inr resp
             \<and> ParseLLMResponse Unmarshal (llm_Content resp) = Inr p
             \<and> ?res = Inr (validateAndCleanResponse (p\<lparr>SessionID := req_SessionID request\<rparr>)))"
    then obtain resp p where
      "backend (buildLLMRequest Title request) = Inr resp"
      "ParseLLMResponse Unmarshal (llm_Content resp) = Inr p"
      "?res = Inr (validateAndCleanResponse (p\<lparr>SessionID := req_SessionID request\<rparr>))"
      by blast
    with ok validateAndCleanResponse_wf [of "p\<lparr>SessionID := req_SessionID request\<rparr>"]
    show ?thesis
      by auto
  qed
qed


theorem process_total_witness:
  "(\<exists>r. fst (ProcessIntent (\<lambda>s. s) placeholder_backend (\<lambda>p. Inl ''bad'')
            \<lparr>req_SessionID = ''s1'', req_UserMessage = [], ConversationHistory = [],
              AvailableActions = []\<rparr> []) = Inr r
        \<and> Status r = StatusError \<and> UserMessage r = FallbackMessage
        \<and> Parameters r = Some Map.empty)
   \<and> (\<exists>r. fst (ProcessIntent (\<lambda>s. s) (\<lambda>q. Inl ''context deadline exceeded'') (\<lambda>p. Inl ''bad'')
            \<lparr>req_SessionID = ''s1'', req_UserMessage = ''hi'', ConversationHistory = [],
              AvailableActions = []\<rparr> []) = Inr r
        \<and> Status r = StatusError \<and> UserMessage r = FallbackMessage
        \<and> Parameters r = Some Map.empty)
   \<and> (\<exists>r. fst (ProcessIntent (\<lambda>s. s)
            (\<lambda>q. Inr \<lparr>llm_Content = ''no json here'', llm_Usage = None\<rparr>) (\<lambda>p. Inl ''bad'')
            \<lparr>req_SessionID = ''s1'', req_UserMessage = ''hi'', ConversationHistory = [],
              AvailableActions = []\<rparr> []) = Inr r
        \<and> Status r = StatusError \<and> UserMessage r = FallbackMessage
        \<and> Parameters r = Some Map.empty)"
proof -
  let ?bad = "\<lparr>req_SessionID = ''s1'', req_UserMessage = [], ConversationHistory = [],
              AvailableActions = []\<rparr>"
  let ?ok = "\<lparr>req_SessionID = ''s1'', req_UserMessage = ''hi'', ConversationHistory = [],
              AvailableActions = []\<rparr>"
  have h1: "validateRequest ?bad \<noteq> None"
    by (simp add: validateRequest_def)
  have h3: "ParseLLMResponse (\<lambda>p. Inl ''bad'') ''no json here'' = Inl ''no valid JSON found in response''"
    by (simp add: ParseLLMResponse_def extractJSON_def)
  have c1: "\<exists>r. fst (ProcessIntent (\<lambda>s. s) placeholder_backend (\<lambda>p. Inl ''bad'') ?bad []) = Inr r
        \<and> Status r = StatusError \<and> UserMessage r = FallbackMessage
        \<and> Parameters r = Some Map.empty"
    using process_total [of "\<lambda>s. s" placeholder_backend "\<lambda>p. Inl ''bad''" ?bad "[]"] h1
    by blast
  have c2: "\<exists>r. fst (ProcessIntent (\<lambda>s. s) (\<lambda>q. Inl ''context deadline exceeded'')
              (\<lambda>p. Inl ''bad'') ?ok []) = Inr r
        \<and> Status r = StatusError \<and> UserMessage r = FallbackMessage
        \<and> Parameters r = Some Map.empty"
    using process_total [of "\<lambda>s. s" "\<lambda>q. Inl ''context deadline exceeded''" "\<lambda>p. Inl ''bad''" ?ok "[]"]
    by blast
  have c3: "\<exists>r. fst (ProcessIntent (\<lambda>s. s)
              (\<lambda>q. Inr \<lparr>llm_Content = ''no json here'', llm_Usage = None\<rparr>)
              (\<lambda>p. Inl ''bad'') ?ok []) = Inr r
        \<and> Status r = StatusError \<and> UserMessage r = FallbackMessage
        \<and> Parameters r = Some Map.empty"
    using process_total [of "\<lambda>s. s" "\<lambda>q. Inr \<lparr>llm_Content = ''no json here'', llm_Usage = None\<rparr>"
        "\<lambda>p. Inl ''bad''" ?ok "[]"] h3
    by (auto simp del: ex_simps)
  from c1 c2 c3 show ?thesis by blast
qed
section \<open>JSON extraction\<close>

lemma Index_range: "Index xs c = -1 \<or> (0 \<le> Index xs c \<and> Index xs c < int (length xs))"
  by (induction xs) (auto simp: Let_def)

lemma Index_notin: "c \<notin> set xs \<Longrightarrow> Index xs c = -1"
  by (induction xs) (auto simp: Let_def)

lemma Index_append: "c \<notin> set pre \<Longrightarrow> Index (pre @ c # rest) c = int (length pre)"
  by (induction pre) (auto simp: Let_def)

lemma LastIndex_range:
  "LastIndex xs c = -1 \<or> (0 \<le> LastIndex xs c \<and> LastIndex xs c < int (length xs))"
  by (induction xs) (auto simp: Let_def)

lemma LastIndex_notin: "c \<notin> set xs \<Longrightarrow> LastIndex xs c = -1"
  by (induction xs) (auto simp: Let_def)

lemma LastIndex_append:
  "c \<notin> set post \<Longrightarrow> LastIndex (xs @ c # post) c = int (length xs)"
  using LastIndex_range [of post c]
  by (induction xs) (auto simp: Let_def LastIndex_notin)

lemma Index_split:
  "Index xs c \<noteq> -1 \<Longrightarrow>
   \<exists>pre rest. xs = pre @ c # rest \<and> c \<notin> set pre \<and> Index xs c = int (length pre)"
proof -
  assume "Index xs c \<noteq> -1"
  then have "c \<in> set xs" using Index_notin by blast
  then obtain pre rest where "xs = pre @ c # rest" "c \<notin> set pre"
    by (meson split_list_first)
  then show ?thesis using Index_append by blast
qed

lemma LastIndex_split:
  "LastIndex xs c \<noteq> -1 \<Longrightarrow>
   \<exists>ys post. xs = ys @ c # post \<and> c \<notin> set post \<and> LastIndex xs c = int (length ys)"
proof -
  assume "LastIndex xs c \<noteq> -1"
  then have "c \<in> set xs" using LastIndex_notin by blast
  then obtain ys post where "xs = ys @ c # post" "c \<notin> set post"
    by (meson split_list_last)
  then show ?thesis using LastIndex_append by blast
qed

lemma extractJSON_span:
  assumes "CHR ''{'' \<notin> set pre" "CHR ''}'' \<notin> set post"
  shows "extractJSON (pre @ CHR ''{'' # mid @ CHR ''}'' # post) = CHR ''{'' # mid @ [CHR ''}'']"
proof -
  have s: "Index (pre @ CHR ''{'' # mid @ CHR ''}'' # post) CHR ''{'' = int (length pre)"
    using assms(1) by (rule Index_append)
  have "LastIndex ((pre @ CHR ''{'' # mid) @ CHR ''}'' # post) CHR ''}''
          = int (length (pre @ CHR ''{'' # mid))"
    using assms(2) by (rule LastIndex_append)
  then have e: "LastIndex (pre @ CHR ''{'' # mid @ CHR ''}'' # post) CHR ''}''
          = int (length pre) + 1 + int (length mid)"
    by simp
  have n: "nat (int (length pre) + 1 + int (length mid) + 1) - nat (int (length pre))
             = Suc (Suc (length mid))"
    by simp
  show ?thesis
    unfolding extractJSON_def Let_def s e n
    by simp
qed

lemma extractJSON_empty_iff:
  "extractJSON content = [] \<longleftrightarrow>
   \<not> (\<exists>pre mid post. content = pre @ CHR ''{'' # mid @ CHR ''}'' # post)"
proof
  assume emp: "extractJSON content = []"
  show "\<not> (\<exists>pre mid post. content = pre @ CHR ''{'' # mid @ CHR ''}'' # post)"
  proof
    assume "\<exists>pre mid post. content = pre @ CHR ''{'' # mid @ CHR ''}'' # post"
    then obtain pre mid post where c: "content = pre @ CHR ''{'' # mid @ CHR ''}'' # post"
      by blast
    then have "CHR ''{'' \<in> set content" by simp
    then obtain p1 r1 where p1: "content = p1 @ CHR ''{'' # r1" "CHR ''{'' \<notin> set p1"
      by (meson split_list_first)
    have lp: "length p1 \<le> length pre"
    proof (rule ccontr)
      assume "\<not> length p1 \<le> length pre"
      then have "length pre < length p1" by simp
      moreover have "content ! length pre = CHR ''{''" using c by (simp add: nth_append)
      ultimately have "p1 ! length pre = CHR ''{''" using p1(1) by (simp add: nth_append)
      with \<open>length pre < length p1\<close> have "CHR ''{'' \<in> set p1" using nth_mem by metis
      with p1(2) show False by simp
    qed
    have "CHR ''}'' \<in> set r1"
    proof -
      have "drop (Suc (length p1)) content = r1" using p1(1) by simp
      moreover have "drop (Suc (length pre)) content = mid @ CHR ''}'' # post" using c by simp
      moreover have "drop (Suc (length pre)) content
            = drop (length pre - length p1) (drop (Suc (length p1)) content)"
        using lp by simp
      ultimately have "mid @ CHR ''}'' # post = drop (length pre - length p1) r1" by simp
      then have "CHR ''}'' \<in> set (drop (length pre - length p1) r1)"
        by (metis in_set_conv_decomp)
      then show ?thesis by (meson in_set_dropD)
    qed
    then obtain m2 q2 where r1: "r1 = m2 @ CHR ''}'' # q2" "CHR ''}'' \<notin> set q2"
      by (meson split_list_last)
    have "extractJSON content = CHR ''{'' # m2 @ [CHR ''}'']"
      unfolding p1(1) r1(1) using p1(2) r1(2) by (rule extractJSON_span)
    with emp show False by simp
  qed
next
  assume no: "\<not> (\<exists>pre mid post. content = pre @ CHR ''{'' # mid @ CHR ''}'' # post)"
  show "extractJSON content = []"
  proof (rule ccontr)
    assume ne: "extractJSON content \<noteq> []"
    then have s: "Index content CHR ''{'' \<noteq> -1"
      by (auto simp: extractJSON_def Let_def)
    with ne have e: "LastIndex content CHR ''}'' \<noteq> -1"
      and lt: "Index content CHR ''{'' < LastIndex content CHR ''}''"
      by (auto simp: extractJSON_def Let_def split: if_splits)
    from Index_split [OF s] obtain pre rest where
      pre: "content = pre @ CHR ''{'' # rest" "Index content CHR ''{'' = int (length pre)"
      by blast
    from LastIndex_split [OF e] obtain ys post where
      ys: "content = ys @ CHR ''}'' # post" "LastIndex content CHR ''}'' = int (length ys)"
      by blast
    from lt pre(2) ys(2) have l: "length pre < length ys" by simp
    have "ys = take (length ys) content" using ys(1) by simp
    also have "\<dots> = pre @ take (length ys - length pre) (CHR ''{'' # rest)"
      using pre(1) l by simp
    also have "\<dots> = pre @ CHR ''{'' # take (length ys - length pre - 1) rest"
      using l by (cases "length ys - length pre") simp_all
    finally have "content = pre @ CHR ''{'' # take (length ys - length pre - 1) rest @ CHR ''}'' # post"
      using ys(1) by simp
    with no show False by blast
  qed
qed
text \<open>
  Claim C3, with the recovery property restricted to prose without braces. A completion with
  no \<open>{\<close> that is followed later by a \<open>}\<close> has no payload: parsing fails and the handler
  answers \<open>PARSE_ERROR\<close>. Otherwise the payload is the span from the first \<open>{\<close> to the last
  \<open>}\<close>: for an object \<open>{mid}\<close> between a leading text without \<open>{\<close> and a trailing text
  without \<open>}\<close>, extraction returns exactly the object, and parsing the completion gives the
  same result as parsing the object alone.
\<close>

theorem extract_first_to_last_brace:
  "(\<not> (\<exists>pre mid post. content = pre @ CHR ''{'' # mid @ CHR ''}'' # post) \<longrightarrow>
      extractJSON content = []
      \<and> ParseLLMResponse Unmarshal content = Inl ''no valid JSON found in response''
      \<and> (validateRequest request = None
           \<and> backend (buildLLMRequest Title request) = Inr \<lparr>llm_Content = content, llm_Usage = u\<rparr>
           \<longrightarrow> (\<exists>r. fst (ProcessIntent Title backend Unmarshal request calls) = Inr r
                  \<and> Status r = StatusError \<and> ErrorCode r = Some ErrorParseError)))
   \<and> (CHR ''{'' \<notin> set pre \<and> CHR ''}'' \<notin> set post \<longrightarrow>
        extractJSON (pre @ CHR ''{'' # mid @ CHR ''}'' # post) = CHR ''{'' # mid @ [CHR ''}'']
        \<and> ParseLLMResponse Unmarshal (pre @ CHR ''{'' # mid @ CHR ''}'' # post)
            = ParseLLMResponse Unmarshal (CHR ''{'' # mid @ [CHR ''}'']))"
proof (intro conjI impI)
  assume no: "\<not> (\<exists>pre mid post. content = pre @ CHR ''{'' # mid @ CHR ''}'' # post)"
  then show emp: "extractJSON content = []"
    by (simp add: extractJSON_empty_iff)
  then show p: "ParseLLMResponse Unmarshal content = Inl ''no valid JSON found in response''"
    by (simp add: ParseLLMResponse_def)
  assume "validateRequest request = None
           \<and> backend (buildLLMRequest Title request) = Inr \<lparr>llm_Content = content, llm_Usage = u\<rparr>"
  with p show "\<exists>r. fst (ProcessIntent Title backend Unmarshal request calls) = Inr r
                  \<and> Status r = StatusError \<and> ErrorCode r = Some ErrorParseError"
    by (simp add: ProcessIntent_def callLLM_def createErrorResponse_fields)
next
  assume a: "CHR ''{'' \<notin> set pre \<and> CHR ''}'' \<notin> set post"
  then show e: "extractJSON (pre @ CHR ''{'' # mid @ CHR ''}'' # post) = CHR ''{'' # mid @ [CHR ''}'']"
    by (simp add: extractJSON_span)
  have "extractJSON (CHR ''{'' # mid @ [CHR ''}'']) = CHR ''{'' # mid @ [CHR ''}'']"
    using extractJSON_span [of "[]" "[]" mid] by simp
  with e show "ParseLLMResponse Unmarshal (pre @ CHR ''{'' # mid @ CHR ''}'' # post)
            = ParseLLMResponse Unmarshal (CHR ''{'' # mid @ [CHR ''}''])"
    by (simp add: ParseLLMResponse_def)
qed

theorem extract_first_to_last_brace_witness:
  "extractJSON ''no json here'' = []
   \<and> ParseLLMResponse (\<lambda>p. Inr zero_IntentResponse) ''no json here''
       = Inl ''no valid JSON found in response''
   \<and> (\<exists>r. fst (ProcessIntent (\<lambda>s. s)
                  (\<lambda>q. Inr \<lparr>llm_Content = ''no json here'', llm_Usage = None\<rparr>)
                  (\<lambda>p. Inr zero_IntentResponse)
                  \<lparr>req_SessionID = ''s1'', req_UserMessage = ''hi'', ConversationHistory = [],
                    AvailableActions = []\<rparr> []) = Inr r
          \<and> Status r = StatusError \<and> ErrorCode r = Some ErrorParseError)
   \<and> extractJSON (''Sure: '' @ CHR ''{'' # ''}{'' @ CHR ''}'' # '' ok'') = ''{}{}''"
proof -
  let ?req = "\<lparr>req_SessionID = ''s1'', req_UserMessage = ''hi'', ConversationHistory = [],
                    AvailableActions = []\<rparr>"
  have n: "\<not> (\<exists>pre mid post. ''no json here'' = pre @ CHR ''{'' # mid @ CHR ''}'' # post)"
  proof
    assume "\<exists>pre mid post. ''no json here'' = pre @ CHR ''{'' # mid @ CHR ''}'' # post"
    then obtain pre mid post where "''no json here'' = pre @ CHR ''{'' # mid @ CHR ''}'' # post"
      by blast
    then have "CHR ''{'' \<in> set ''no json here''"
      by (metis in_set_conv_decomp)
    then show False by simp
  qed
  have s: "CHR ''{'' \<notin> set ''Sure: '' \<and> CHR ''}'' \<notin> set '' ok''"
    by simp
  have v: "validateRequest ?req = None"
    by (simp add: validateRequest_def)
  from extract_first_to_last_brace
         [where content = "''no json here''" and Unmarshal = "\<lambda>p. Inr zero_IntentResponse"
            and request = ?req and Title = "\<lambda>s. s" and u = None and calls = "[]"
            and backend = "\<lambda>q. Inr \<lparr>llm_Content = ''no json here'', llm_Usage = None\<rparr>"
            and pre = "''Sure: ''" and post = "'' ok''" and mid = "''}{''"] n s v
  show ?thesis by simp
qed

text \<open>
  The recovery does not hold for every surrounding text. With a brace in the leading prose the
  payload starts there: for \<open>see {x}: {} done\<close> the payload is \<open>{x}: {}\<close>, not the embedded
  object \<open>{}\<close>. A decoder that accepts \<open>{}\<close> and rejects the longer text, as a JSON decoder
  does, therefore fails on the completion although it decodes the object.
\<close>

theorem braces_in_prose_counterexample:
  "extractJSON (''see {x}: '' @ ''{}'' @ '' done'') = ''{x}: {}''
   \<and> ParseLLMResponse (\<lambda>p. if p = ''{}'' then Inr zero_IntentResponse else Inl ''invalid character'')
         (''see {x}: '' @ ''{}'' @ '' done'')
       = Inl ''failed to parse JSON: invalid character''
   \<and> ParseLLMResponse (\<lambda>p. if p = ''{}'' then Inr zero_IntentResponse else Inl ''invalid character'')
         ''{}''
       = Inr (zero_IntentResponse\<lparr>Status := StatusError, UserMessage := FallbackMessage,
                Parameters := Some Map.empty\<rparr>)"
  by (simp add: ParseLLMResponse_def extractJSON_def zero_IntentResponse_def)

section \<open>The repair pass\<close>

lemma ParseLLMResponse_decoded:
  assumes "extractJSON content \<noteq> []" and "Unmarshal (extractJSON content) = Inr d"
  shows "ParseLLMResponse Unmarshal content =
     Inr ((if Status d = [] then d\<lparr>Status := StatusError, UserMessage := FallbackMessage\<rparr> else d)
            \<lparr>Parameters := Some (case Parameters d of None \<Rightarrow> Map.empty | Some m \<Rightarrow> m)\<rparr>)"
  using assms by (auto simp: ParseLLMResponse_def Let_def split: option.splits)

lemma empty_status_invalid: "\<not> validStatuses []"
  by (simp add: validStatuses_def StatusNeedsInfo_def StatusReady_def StatusError_def)

lemma validStatuses_StatusError: "validStatuses StatusError"
  by (simp add: validStatuses_def)

lemma validStatuses_iff:
  "validStatuses s \<longleftrightarrow> s \<in> {StatusNeedsInfo, StatusReady, StatusError}"
  by (auto simp: validStatuses_def)

lemma clean_invalid:
  "\<not> validStatuses (Status r) \<Longrightarrow>
     Status (validateAndCleanResponse r) = StatusError
     \<and> UserMessage (validateAndCleanResponse r) = FallbackMessage"
  by (simp add: validateAndCleanResponse_def Let_def FallbackMessage_nonempty)

lemma clean_valid:
  "validStatuses (Status r) \<Longrightarrow>
     Status (validateAndCleanResponse r) = Status r
     \<and> UserMessage (validateAndCleanResponse r)
         = (if UserMessage r = [] then ''How can I help you with your CDN setup?''
            else UserMessage r)"
  by (simp add: validateAndCleanResponse_def Let_def)

lemma clean_parameters:
  "Parameters (validateAndCleanResponse r)
     = Some (case Parameters r of None \<Rightarrow> Map.empty | Some m \<Rightarrow> m)"
  by (simp add: validateAndCleanResponse_def Let_def split: option.splits)

lemma clean_session: "SessionID (validateAndCleanResponse r) = SessionID r"
  by (simp add: validateAndCleanResponse_def Let_def)

text \<open>The parser of the completion binding is the parser of the prompts package.\<close>

lemma parseIntentResponse_eq:
  "parseIntentResponse Unmarshal content = ParseLLMResponse Unmarshal content"
  by (simp add: parseIntentResponse_def ParseLLMResponse_def)

text \<open>
  Claim C2, with the order of the repairs made explicit. When the payload of a completion
  decodes to \<open>d\<close>, the response after \<open>ParseLLMResponse\<close> (equally \<open>parseIntentResponse\<close>),
  the session stamp and \<open>validateAndCleanResponse\<close> satisfies: a status of \<open>d\<close> that is missing or not one of
  \<open>NEEDS_INFO\<close>, \<open>READY\<close>, \<open>ERROR\<close> is replaced by \<open>ERROR\<close> and the message by the fixed
  fallback text; a known status is kept; absent parameters become the empty map and present
  ones are kept; an empty message under a known status is replaced by the generic prompt; and
  the message is never empty.
\<close>

theorem repair_pass:
  assumes "extractJSON content \<noteq> []" and "Unmarshal (extractJSON content) = Inr d"
  shows "\<exists>p. ParseLLMResponse Unmarshal content = Inr p \<and>
     (let r = validateAndCleanResponse (p\<lparr>SessionID := sid\<rparr>) in
        (Status d \<notin> {StatusNeedsInfo, StatusReady, StatusError} \<longrightarrow>
           Status r = StatusError \<and> UserMessage r = FallbackMessage)
      \<and> (Status d \<in> {StatusNeedsInfo, StatusReady, StatusError} \<longrightarrow> Status r = Status d)
      \<and> (Parameters d = None \<longrightarrow> Parameters r = Some Map.empty)
      \<and> (Parameters d \<noteq> None \<longrightarrow> Parameters r = Parameters d)
      \<and> (Status d \<in> {StatusNeedsInfo, StatusReady, StatusError} \<and> UserMessage d = [] \<longrightarrow>
           UserMessage r = ''How can I help you with your CDN setup?'')
      \<and> (Status d \<in> {StatusNeedsInfo, StatusReady, StatusError} \<and> UserMessage d \<noteq> [] \<longrightarrow>
           UserMessage r = UserMessage d)
      \<and> UserMessage r \<noteq> [] \<and> SessionID r = sid)"
proof -
  define p where "p = (if Status d = [] then d\<lparr>Status := StatusError, UserMessage := FallbackMessage\<rparr>
       else d)\<lparr>Parameters := Some (case Parameters d of None \<Rightarrow> Map.empty | Some m \<Rightarrow> m)\<rparr>"
  define q where "q = p\<lparr>SessionID := sid\<rparr>"
  have parse: "ParseLLMResponse Unmarshal content = Inr p"
    unfolding p_def by (rule ParseLLMResponse_decoded [of content Unmarshal d, OF assms])
  have par: "Parameters q = Some (case Parameters d of None \<Rightarrow> Map.empty | Some m \<Rightarrow> m)"
    by (simp add: q_def p_def)
  have ne: "UserMessage (validateAndCleanResponse q) \<noteq> []"
    by (rule validateAndCleanResponse_wf)
  have sid: "SessionID (validateAndCleanResponse q) = sid"
    by (simp add: clean_session q_def)
  have params: "Parameters (validateAndCleanResponse q)
                  = Some (case Parameters d of None \<Rightarrow> Map.empty | Some m \<Rightarrow> m)"
    by (simp add: clean_parameters par)
  have body:
    "(Status d \<notin> {StatusNeedsInfo, StatusReady, StatusError} \<longrightarrow>
           Status (validateAndCleanResponse q) = StatusError
           \<and> UserMessage (validateAndCleanResponse q) = FallbackMessage)
      \<and> (Status d \<in> {StatusNeedsInfo, StatusReady, StatusError} \<longrightarrow>
           Status (validateAndCleanResponse q) = Status d
           \<and> UserMessage (validateAndCleanResponse q)
               = (if UserMessage d = [] then ''How can I help you with your CDN setup?''
                  else UserMessage d))"
  proof (cases "validStatuses (Status d)")
    case True
    then have "Status d \<noteq> []" using empty_status_invalid by auto
    then have "Status q = Status d" "UserMessage q = UserMessage d"
      by (simp_all add: q_def p_def)
    with True clean_valid [of q] show ?thesis
      by (simp add: validStatuses_iff)
  next
    case False
    show ?thesis
    proof (cases "Status d = []")
      case True
      then have "Status q = StatusError" "UserMessage q = FallbackMessage"
        by (simp_all add: q_def p_def)
      with clean_valid [of q] validStatuses_StatusError FallbackMessage_nonempty False
      show ?thesis by (simp add: validStatuses_iff)
    next
      case nonempty: False
      then have "Status q = Status d" by (simp add: q_def p_def)
      with False clean_invalid [of q] show ?thesis
        by (simp add: validStatuses_iff)
    qed
  qed
  from body params ne sid have fin:
    "(Status d \<notin> {StatusNeedsInfo, StatusReady, StatusError} \<longrightarrow>
           Status (validateAndCleanResponse q) = StatusError
           \<and> UserMessage (validateAndCleanResponse q) = FallbackMessage)
      \<and> (Status d \<in> {StatusNeedsInfo, StatusReady, StatusError} \<longrightarrow>
           Status (validateAndCleanResponse q) = Status d)
      \<and> (Parameters d = None \<longrightarrow> Parameters (validateAndCleanResponse q) = Some Map.empty)
      \<and> (Parameters d \<noteq> None \<longrightarrow> Parameters (validateAndCleanResponse q) = Parameters d)
      \<and> (Status d \<in> {StatusNeedsInfo, StatusReady, StatusError} \<and> UserMessage d = [] \<longrightarrow>
           UserMessage (validateAndCleanResponse q) = ''How can I help you with your CDN setup?'')
      \<and> (Status d \<in> {StatusNeedsInfo, StatusReady, StatusError} \<and> UserMessage d \<noteq> [] \<longrightarrow>
           UserMessage (validateAndCleanResponse q) = UserMessage d)
      \<and> UserMessage (validateAndCleanResponse q) \<noteq> []
      \<and> SessionID (validateAndCleanResponse q) = sid"
    by (cases "Parameters d") auto
  show ?thesis
    unfolding Let_def
    by (rule exI [of _ p], rule conjI [OF parse fin [unfolded q_def]])
qed

theorem repair_pass_witness:
  "(\<exists>p. ParseLLMResponse (\<lambda>p. Inr (zero_IntentResponse\<lparr>Status := ''BOGUS''\<rparr>)) ''{}'' = Inr p
       \<and> Status (validateAndCleanResponse (p\<lparr>SessionID := ''s1''\<rparr>)) = StatusError
       \<and> UserMessage (validateAndCleanResponse (p\<lparr>SessionID := ''s1''\<rparr>)) = FallbackMessage
       \<and> Parameters (validateAndCleanResponse (p\<lparr>SessionID := ''s1''\<rparr>)) = Some Map.empty)
   \<and> (\<exists>p. ParseLLMResponse (\<lambda>p. Inr (zero_IntentResponse\<lparr>Status := ''READY''\<rparr>)) ''{}'' = Inr p
       \<and> Status (validateAndCleanResponse (p\<lparr>SessionID := ''s1''\<rparr>)) = ''READY''
       \<and> UserMessage (validateAndCleanResponse (p\<lparr>SessionID := ''s1''\<rparr>))
           = ''How can I help you with your CDN setup?'')"
proof -
  have e: "extractJSON ''{}'' \<noteq> []"
    by (simp add: extractJSON_def)
  have b: "Status (zero_IntentResponse\<lparr>Status := ''BOGUS''\<rparr>) \<notin> {StatusNeedsInfo, StatusReady, StatusError}"
    "Parameters (zero_IntentResponse\<lparr>Status := ''BOGUS''\<rparr>) = None"
    by (simp_all add: zero_IntentResponse_def StatusNeedsInfo_def StatusReady_def StatusError_def)
  have r: "Status (zero_IntentResponse\<lparr>Status := ''READY''\<rparr>) \<in> {StatusNeedsInfo, StatusReady, StatusError}"
    "UserMessage (zero_IntentResponse\<lparr>Status := ''READY''\<rparr>) = []"
    "Status (zero_IntentResponse\<lparr>Status := ''READY''\<rparr>) = ''READY''"
    by (simp_all add: zero_IntentResponse_def StatusReady_def)
  have ub: "(\<lambda>p. Inr (zero_IntentResponse\<lparr>Status := ''BOGUS''\<rparr>)) (extractJSON ''{}'')
              = (Inr (zero_IntentResponse\<lparr>Status := ''BOGUS''\<rparr>) :: string + IntentResponse)"
    by simp
  have ur: "(\<lambda>p. Inr (zero_IntentResponse\<lparr>Status := ''READY''\<rparr>)) (extractJSON ''{}'')
              = (Inr (zero_IntentResponse\<lparr>Status := ''READY''\<rparr>) :: string + IntentResponse)"
    by simp
  from repair_pass [where content = "''{}''" and sid = "''s1''"
        and Unmarshal = "\<lambda>p. Inr (zero_IntentResponse\<lparr>Status := ''BOGUS''\<rparr>)"
        and d = "zero_IntentResponse\<lparr>Status := ''BOGUS''\<rparr>", OF e ub, unfolded Let_def]
  obtain p1 where p1:
    "ParseLLMResponse (\<lambda>p. Inr (zero_IntentResponse\<lparr>Status := ''BOGUS''\<rparr>)) ''{}'' = Inr p1"
    "Status (zero_IntentResponse\<lparr>Status := ''BOGUS''\<rparr>) \<notin> {StatusNeedsInfo, StatusReady, StatusError}
       \<longrightarrow> Status (validateAndCleanResponse (p1\<lparr>SessionID := ''s1''\<rparr>)) = StatusError
         \<and> UserMessage (validateAndCleanResponse (p1\<lparr>SessionID := ''s1''\<rparr>)) = FallbackMessage"
    "Parameters (zero_IntentResponse\<lparr>Status := ''BOGUS''\<rparr>) = None
       \<longrightarrow> Parameters (validateAndCleanResponse (p1\<lparr>SessionID := ''s1''\<rparr>)) = Some Map.empty"
    by (elim exE conjE) (rule that)
  from p1 b have 1:
    "\<exists>p. ParseLLMResponse (\<lambda>p. Inr (zero_IntentResponse\<lparr>Status := ''BOGUS''\<rparr>)) ''{}'' = Inr p
       \<and> Status (validateAndCleanResponse (p\<lparr>SessionID := ''s1''\<rparr>)) = StatusError
       \<and> UserMessage (validateAndCleanResponse (p\<lparr>SessionID := ''s1''\<rparr>)) = FallbackMessage
       \<and> Parameters (validateAndCleanResponse (p\<lparr>SessionID := ''s1''\<rparr>)) = Some Map.empty"
    by (intro exI [of _ p1]) (simp only: simp_thms)
  from repair_pass [where content = "''{}''" and sid = "''s1''"
        and Unmarshal = "\<lambda>p. Inr (zero_IntentResponse\<lparr>Status := ''READY''\<rparr>)"
        and d = "zero_IntentResponse\<lparr>Status := ''READY''\<rparr>", OF e ur, unfolded Let_def]
  obtain p2 where p2:
    "ParseLLMResponse (\<lambda>p. Inr (zero_IntentResponse\<lparr>Status := ''READY''\<rparr>)) ''{}'' = Inr p2"
    "Status (zero_IntentResponse\<lparr>Status := ''READY''\<rparr>) \<in> {StatusNeedsInfo, StatusReady, StatusError}
       \<longrightarrow> Status (validateAndCleanResponse (p2\<lparr>SessionID := ''s1''\<rparr>))
           = Status (zero_IntentResponse\<lparr>Status := ''READY''\<rparr>)"
    "Status (zero_IntentResponse\<lparr>Status := ''READY''\<rparr>) \<in> {StatusNeedsInfo, StatusReady, StatusError}
       \<and> UserMessage (zero_IntentResponse\<lparr>Status := ''READY''\<rparr>) = []
       \<longrightarrow> UserMessage (validateAndCleanResponse (p2\<lparr>SessionID := ''s1''\<rparr>))
           = ''How can I help you with your CDN setup?''"
    by (elim exE conjE) (rule that)
  from p2 r have 2:
    "\<exists>p. ParseLLMResponse (\<lambda>p. Inr (zero_IntentResponse\<lparr>Status := ''READY''\<rparr>)) ''{}'' = Inr p
       \<and> Status (validateAndCleanResponse (p\<lparr>SessionID := ''s1''\<rparr>)) = ''READY''
       \<and> UserMessage (validateAndCleanResponse (p\<lparr>SessionID := ''s1''\<rparr>))
           = ''How can I help you with your CDN setup?''"
    by (intro exI [of _ p2]) (simp only: simp_thms)
  from 1 2 show ?thesis by blast
qed

text \<open>
  The replacement of an empty message by the generic prompt does not hold for every decoded
  value: for the payload \<open>{}\<close>, which decodes to the zero response, the status repair runs
  first and the message becomes the fallback text, which is not the generic prompt.
\<close>

theorem empty_message_invalid_status_counterexample:
  "ParseLLMResponse (\<lambda>p. Inr zero_IntentResponse) ''{}''
     = Inr (zero_IntentResponse\<lparr>Status := StatusError, UserMessage := FallbackMessage,
              Parameters := Some Map.empty\<rparr>)
   \<and> UserMessage zero_IntentResponse = []
   \<and> UserMessage (validateAndCleanResponse
        (zero_IntentResponse\<lparr>Status := StatusError, UserMessage := FallbackMessage,
              Parameters := Some Map.empty, SessionID := ''s1''\<rparr>)) = FallbackMessage
   \<and> FallbackMessage \<noteq> ''How can I help you with your CDN setup?''"
  by (simp add: ParseLLMResponse_def extractJSON_def zero_IntentResponse_def
        validateAndCleanResponse_def validStatuses_def FallbackMessage_def)
section \<open>Properties of the memory-integrated pipeline\<close>

lemma AnalyzeIntent_fields:
  assumes "req_SessionID r = req_SessionID r'" "req_UserMessage r = req_UserMessage r'"
    "AvailableActions r = AvailableActions r'"
  shows "AnalyzeIntent cfg io model st r = AnalyzeIntent cfg io model st r'"
  unfolding AnalyzeIntent_def buildPromptWithHistory_def assms
  by (rule refl)

text \<open>
  Claim C10. \<open>AnalyzeIntent\<close> does not read the \<open>conversation_history\<close> of the request: two
  requests that differ only in that field give the same prompt for the same rendered history,
  and, from the same state and with the same backend, the same result and the same final
  state. The history in the prompt is the one \<open>GetFormattedHistory\<close> renders from the cache.
\<close>

theorem request_history_not_read:
  "buildPromptWithHistory (request\<lparr>ConversationHistory := h1\<rparr>) formattedHistory
     = buildPromptWithHistory (request\<lparr>ConversationHistory := h2\<rparr>) formattedHistory
   \<and> AnalyzeIntent cfg io model st (request\<lparr>ConversationHistory := h1\<rparr>)
     = AnalyzeIntent cfg io model st (request\<lparr>ConversationHistory := h2\<rparr>)"
proof
  show "buildPromptWithHistory (request\<lparr>ConversationHistory := h1\<rparr>) formattedHistory
     = buildPromptWithHistory (request\<lparr>ConversationHistory := h2\<rparr>) formattedHistory"
    by (simp add: buildPromptWithHistory_def)
  show "AnalyzeIntent cfg io model st (request\<lparr>ConversationHistory := h1\<rparr>)
     = AnalyzeIntent cfg io model st (request\<lparr>ConversationHistory := h2\<rparr>)"
    by (rule AnalyzeIntent_fields) simp_all
qed

lemma load_messages_replay: "load_messages msgs mem = mem @ replay_spec msgs"
  by (induction msgs arbitrary: mem) (simp_all add: replay_spec_def known_role_def to_chat_def)

lemma replay_spec_length: "length (replay_spec msgs) \<le> length msgs"
  by (simp add: replay_spec_def)

lemma replay_spec_shorter:
  "length (replay_spec msgs) < length msgs \<longleftrightarrow> (\<exists>msg \<in> set msgs. \<not> known_role (Role msg))"
proof
  assume "length (replay_spec msgs) < length msgs"
  then have "filter (\<lambda>msg. known_role (Role msg)) msgs \<noteq> msgs"
    by (auto simp: replay_spec_def)
  then show "\<exists>msg \<in> set msgs. \<not> known_role (Role msg)"
    by (simp add: filter_id_conv)
next
  assume "\<exists>msg \<in> set msgs. \<not> known_role (Role msg)"
  then show "length (replay_spec msgs) < length msgs"
    by (auto simp: replay_spec_def intro: length_filter_less)
qed

lemma LoadSession_nil:
  assumes "redis_Get st (sessionKey sid) = RedisNil"
  shows "LoadSession cfg st sid =
     (Inr \<lparr>sd_SessionID = sid, UserID = [], Messages = [],
           sd_Metadata = \<lparr>StartedAt = clock st (Suc (now_ix st)),
                          LastActivity = clock st (Suc (Suc (now_ix st))), MessageCount = 0\<rparr>\<rparr>,
      st\<lparr>now_ix := Suc (Suc (Suc (now_ix st)))\<rparr>)"
  using assms by (simp add: LoadSession_def time_Now_def tick_def)

lemma LoadSession_value:
  assumes "redis_Get st (sessionKey sid) = RedisValue d" "json_Unmarshal cfg d = Inr s"
  shows "LoadSession cfg st sid = (Inr s, tick st)"
  using assms by (simp add: LoadSession_def)


lemma GetOrCreateSession_cached:
  "sessions st sid = Some mem \<Longrightarrow> GetOrCreateSession cfg st sid = (Inr mem, st)"
  by (simp add: GetOrCreateSession_def)

lemma GetOrCreateSession_unseen:
  assumes "sessions st sid = None" "redis_Get st (sessionKey sid) = RedisNil"
  shows "GetOrCreateSession cfg st sid =
     (Inr [], st\<lparr>now_ix := Suc (Suc (Suc (now_ix st))), sessions := (sessions st)(sid \<mapsto> [])\<rparr>)"
  using assms by (simp add: GetOrCreateSession_def LoadSession_nil)

lemma GetOrCreateSession_stored:
  assumes "sessions st sid = None" "redis_Get st (sessionKey sid) = RedisValue d"
    "json_Unmarshal cfg d = Inr sd"
  shows "GetOrCreateSession cfg st sid =
     (Inr (load_messages (Messages sd) []),
      (tick st)\<lparr>sessions := (sessions st)(sid \<mapsto> load_messages (Messages sd) [])\<rparr>)"
  using assms
  by (simp add: GetOrCreateSession_def Let_def LoadSession_value [of st sid d cfg sd] tick_def)

lemma replay_spec_all_known:
  "\<forall>msg \<in> set msgs. known_role (Role msg) \<Longrightarrow> replay_spec msgs = map to_chat msgs"
  by (simp add: replay_spec_def)

text \<open>
  Claim C6. For a session that is neither in the cache nor in the store (the store answers
  \<open>redis.Nil\<close> for its key), \<open>GetOrCreateSession\<close> returns the empty buffer, without error,
  and caches it. For a session in the cache it returns the cached buffer and changes nothing.
  Otherwise it replays the messages of the stored record in their order into a new buffer,
  caches and returns it; when every role is a known one, the buffer has one turn per stored
  message.
\<close>

theorem load_or_create:
  "(sessions st sid = None \<and> redis_Get st (sessionKey sid) = RedisNil \<longrightarrow>
      (\<exists>st'. GetOrCreateSession cfg st sid = (Inr [], st')
            \<and> sessions st' sid = Some [] \<and> kv st' = kv st))
   \<and> (sessions st sid = Some mem \<longrightarrow> GetOrCreateSession cfg st sid = (Inr mem, st))
   \<and> (sessions st sid = None \<and> redis_Get st (sessionKey sid) = RedisValue d
        \<and> json_Unmarshal cfg d = Inr sd \<longrightarrow>
      (\<exists>st'. GetOrCreateSession cfg st sid = (Inr (load_messages (Messages sd) []), st')
            \<and> sessions st' sid = Some (load_messages (Messages sd) [])
            \<and> kv st' = kv st
            \<and> load_messages (Messages sd) [] = replay_spec (Messages sd)
            \<and> ((\<forall>msg \<in> set (Messages sd). known_role (Role msg)) \<longrightarrow>
                 load_messages (Messages sd) [] = map to_chat (Messages sd))))"
proof (intro conjI impI)
  assume "sessions st sid = None \<and> redis_Get st (sessionKey sid) = RedisNil"
  then show "\<exists>st'. GetOrCreateSession cfg st sid = (Inr [], st')
            \<and> sessions st' sid = Some [] \<and> kv st' = kv st"
    by (simp add: GetOrCreateSession_unseen)
next
  assume "sessions st sid = Some mem"
  then show "GetOrCreateSession cfg st sid = (Inr mem, st)"
    by (rule GetOrCreateSession_cached)
next
  assume "sessions st sid = None \<and> redis_Get st (sessionKey sid) = RedisValue d
        \<and> json_Unmarshal cfg d = Inr sd"
  then have "GetOrCreateSession cfg st sid =
     (Inr (load_messages (Messages sd) []),
      (tick st)\<lparr>sessions := (sessions st)(sid \<mapsto> load_messages (Messages sd) [])\<rparr>)"
    by (simp add: GetOrCreateSession_stored [of st sid d cfg sd])
  then show "\<exists>st'. GetOrCreateSession cfg st sid = (Inr (load_messages (Messages sd) []), st')
            \<and> sessions st' sid = Some (load_messages (Messages sd) [])
            \<and> kv st' = kv st
            \<and> load_messages (Messages sd) [] = replay_spec (Messages sd)
            \<and> ((\<forall>msg \<in> set (Messages sd). known_role (Role msg)) \<longrightarrow>
                 load_messages (Messages sd) [] = map to_chat (Messages sd))"
    by (simp add: load_messages_replay replay_spec_all_known tick_def)
qed

text \<open>
  Claim C9. The replay of a stored record keeps exactly the messages whose role is \<open>user\<close>,
  \<open>assistant\<close> or \<open>system\<close>, in their original order, and skips every other message
  without failing: the buffer is shorter than the stored message list exactly when some
  message has another role.
\<close>

theorem replay_skips_unknown_roles:
  assumes "sessions st sid = None" "redis_Get st (sessionKey sid) = RedisValue d"
    "json_Unmarshal cfg d = Inr sd"
  shows "\<exists>mem st'. GetOrCreateSession cfg st sid = (Inr mem, st')
           \<and> sessions st' sid = Some mem
           \<and> mem = map to_chat (filter (\<lambda>msg. Role msg \<in> {''user'', ''assistant'', ''system''})
                                  (Messages sd))
           \<and> length mem \<le> length (Messages sd)
           \<and> (length mem < length (Messages sd) \<longleftrightarrow>
                (\<exists>msg \<in> set (Messages sd). Role msg \<notin> {''user'', ''assistant'', ''system''}))"
proof -
  have k: "(\<lambda>msg. Role msg \<in> {''user'', ''assistant'', ''system''}) = (\<lambda>msg. known_role (Role msg))"
    by (auto simp: known_role_def)
  have "GetOrCreateSession cfg st sid =
     (Inr (replay_spec (Messages sd)),
      (tick st)\<lparr>sessions := (sessions st)(sid \<mapsto> replay_spec (Messages sd))\<rparr>)"
    using GetOrCreateSession_stored [of st sid d cfg sd] assms
    by (simp add: load_messages_replay)
  moreover have "replay_spec (Messages sd)
      = map to_chat (filter (\<lambda>msg. Role msg \<in> {''user'', ''assistant'', ''system''}) (Messages sd))"
    unfolding k by (simp add: replay_spec_def)
  moreover have "length (replay_spec (Messages sd)) < length (Messages sd) \<longleftrightarrow>
        (\<exists>msg \<in> set (Messages sd). Role msg \<notin> {''user'', ''assistant'', ''system''})"
    using replay_spec_shorter [of "Messages sd"] by (simp add: known_role_def)
  ultimately show ?thesis
    using replay_spec_length [of "Messages sd"] by (auto simp: tick_def)
qed


lemma example_state_fields:
  "sessions example_state ''s1'' = None"
  "redis_Get example_state (sessionKey ''s1'') = RedisValue example_record"
  "json_Unmarshal example_config example_record = Inr example_record"
  by (simp_all add: example_state_def fresh_state_def example_config_def redis_Get_def
        expired_def)

lemma example_record_messages:
  "Messages example_record =
     [\<lparr>Role = ''user'', Content = ''hello'', Timestamp = 1\<rparr>,
      \<lparr>Role = ''tool'', Content = ''lookup'', Timestamp = 2\<rparr>,
      \<lparr>Role = ''assistant'', Content = ''hi'', Timestamp = 3\<rparr>]"
  "MessageCount (sd_Metadata example_record) = 3"
  by (simp_all add: example_record_def)

theorem replay_skips_unknown_roles_witness:
  "\<exists>st'. GetOrCreateSession example_config example_state ''s1''
           = (Inr [HumanChatMessage ''hello'', AIChatMessage ''hi''], st')
      \<and> sessions st' ''s1'' = Some [HumanChatMessage ''hello'', AIChatMessage ''hi'']
      \<and> int (length [HumanChatMessage ''hello'', AIChatMessage ''hi''])
           < MessageCount (sd_Metadata example_record)"
proof -
  from replay_skips_unknown_roles [OF example_state_fields]
  obtain mem st' where
    g: "GetOrCreateSession example_config example_state ''s1'' = (Inr mem, st')"
    and c: "sessions st' ''s1'' = Some mem"
    and m: "mem = map to_chat (filter (\<lambda>msg. Role msg \<in> {''user'', ''assistant'', ''system''})
                                  (Messages example_record))"
    by blast
  from m have "mem = [HumanChatMessage ''hello'', AIChatMessage ''hi'']"
    by (simp add: example_record_messages to_chat_def)
  with g c show ?thesis
    by (simp add: example_record_messages)
qed

theorem load_or_create_witness:
  "(\<exists>st'. GetOrCreateSession example_config (fresh_state :: SessionData state) ''s9''
            = (Inr [], st') \<and> sessions st' ''s9'' = Some [])
   \<and> GetOrCreateSession example_config
        ((fresh_state :: SessionData state)\<lparr>sessions := [''s1'' \<mapsto> [HumanChatMessage ''hello'']]\<rparr>) ''s1''
       = (Inr [HumanChatMessage ''hello''],
          fresh_state\<lparr>sessions := [''s1'' \<mapsto> [HumanChatMessage ''hello'']]\<rparr>)
   \<and> (\<exists>st'. GetOrCreateSession example_config example_state ''s1''
            = (Inr [HumanChatMessage ''hello'', AIChatMessage ''hi''], st')
          \<and> sessions st' ''s1'' = Some [HumanChatMessage ''hello'', AIChatMessage ''hi''])"
proof -
  have a: "sessions (fresh_state :: SessionData state) ''s9'' = None
      \<and> redis_Get (fresh_state :: SessionData state) (sessionKey ''s9'') = RedisNil"
    by (simp add: fresh_state_def redis_Get_def)
  have b: "sessions ((fresh_state :: SessionData state)
        \<lparr>sessions := [''s1'' \<mapsto> [HumanChatMessage ''hello'']]\<rparr>) ''s1''
      = Some [HumanChatMessage ''hello'']"
    by simp
  have c: "sessions example_state ''s1'' = None
      \<and> redis_Get example_state (sessionKey ''s1'') = RedisValue example_record
      \<and> json_Unmarshal example_config example_record = Inr example_record"
    by (simp add: example_state_fields)
  have r: "load_messages (Messages example_record) []
             = [HumanChatMessage ''hello'', AIChatMessage ''hi'']"
    by (simp add: example_record_messages)
  from load_or_create [where st = "fresh_state :: SessionData state" and sid = "''s9''"
         and cfg = example_config] a
  have 1: "\<exists>st'. GetOrCreateSession example_config (fresh_state :: SessionData state) ''s9''
            = (Inr [], st') \<and> sessions st' ''s9'' = Some []"
    by blast
  from load_or_create [where st = "(fresh_state :: SessionData state)
        \<lparr>sessions := [''s1'' \<mapsto> [HumanChatMessage ''hello'']]\<rparr>" and sid = "''s1''"
         and cfg = example_config and mem = "[HumanChatMessage ''hello'']"] b
  have 2: "GetOrCreateSession example_config
        ((fresh_state :: SessionData state)\<lparr>sessions := [''s1'' \<mapsto> [HumanChatMessage ''hello'']]\<rparr>) ''s1''
       = (Inr [HumanChatMessage ''hello''],
          fresh_state\<lparr>sessions := [''s1'' \<mapsto> [HumanChatMessage ''hello'']]\<rparr>)"
    by blast
  from load_or_create [where st = example_state and sid = "''s1''" and cfg = example_config
         and d = example_record and sd = example_record] c
  have "\<exists>st'. GetOrCreateSession example_config example_state ''s1''
            = (Inr (load_messages (Messages example_record) []), st')
          \<and> sessions st' ''s1'' = Some (load_messages (Messages example_record) [])"
    by blast
  then have 3: "\<exists>st'. GetOrCreateSession example_config example_state ''s1''
            = (Inr [HumanChatMessage ''hello'', AIChatMessage ''hi''], st')
          \<and> sessions st' ''s1'' = Some [HumanChatMessage ''hello'', AIChatMessage ''hi'']"
    unfolding r .
  from 1 2 3 show ?thesis by blast
qed
section \<open>Properties of the JSON codec\<close>

lemma to_valid_utf8_id: "valid_utf8 s \<Longrightarrow> to_valid_utf8 s = s"
  by (induction s rule: to_valid_utf8.induct) (auto split: if_splits)

lemma sanitize_record_id: "valid_record s \<Longrightarrow> sanitize_record s = s"
  by (simp add: valid_record_def sanitize_record_def sanitize_message_def list_all_iff
        to_valid_utf8_id map_idI)

lemma sanitize_record_shape:
  "sd_Metadata (sanitize_record s) = sd_Metadata s
   \<and> length (Messages (sanitize_record s)) = length (Messages s)
   \<and> map Timestamp (Messages (sanitize_record s)) = map Timestamp (Messages s)"
  by (simp add: sanitize_record_def sanitize_message_def)

lemma ascii_valid_utf8: "\<forall>c \<in> set s. (of_char c :: nat) < 128 \<Longrightarrow> valid_utf8 s"
  by (induction s) (simp_all add: rune_len_def in_range_def)

lemma ascii_to_valid_utf8: "\<forall>c \<in> set s. (of_char c :: nat) < 128 \<Longrightarrow> to_valid_utf8 s = s"
  by (rule to_valid_utf8_id, rule ascii_valid_utf8)


section \<open>Properties of the session store\<close>

lemma persisted_SomeD:
  "persisted cfg st sid = Some s \<Longrightarrow>
     \<exists>d e. kv st (sessionKey sid) = Some (d, e) \<and> json_Unmarshal cfg d = Inr s"
  by (auto simp: persisted_def split: option.splits sum.splits)

lemma saveSession_written:
  assumes "saveSession cfg st s = (None, st')"
  shows "\<exists>d. json_Marshal cfg s = Inr d \<and> redis_fault st = None
           \<and> st' = (tick st)\<lparr>kv := (kv st)(sessionKey (sd_SessionID s) \<mapsto>
                  (d, if ttl cfg = 0 then None
                      else Some (clock st (now_ix st) + int (ttl cfg))))\<rparr>"
  using assms
  by (auto simp: saveSession_def redis_Set_def split: sum.splits option.splits)













section \<open>Writing a record and loading it again\<close>

text \<open>
  Claim C8, for the codec of the library. When the record \<open>s\<close> has been written to the store
  and its session is loaded at the next event, not later than the time to live after the
  write, the load returns \<open>s\<close> with its texts coerced to valid UTF-8: the same messages in the
  same order with the same instants, and the same metadata. When the session id, the user
  id and the role and content of every message of \<open>s\<close> are valid UTF-8, the load returns \<open>s\<close>
  itself, every role and content byte for byte. The load leaves the store as it is.
\<close>

theorem save_then_load:
  assumes written: "saveSession (go_config t) st s = (None, st')"
    and soon: "t \<noteq> 0 \<Longrightarrow> clock st (Suc (now_ix st)) \<le> clock st (now_ix st) + int t"
  shows "LoadSession (go_config t) st' (sd_SessionID s) = (Inr (sanitize_record s), tick st')
         \<and> sd_Metadata (sanitize_record s) = sd_Metadata s
         \<and> map Timestamp (Messages (sanitize_record s)) = map Timestamp (Messages s)
         \<and> (valid_record s \<longrightarrow>
              LoadSession (go_config t) st' (sd_SessionID s) = (Inr s, tick st'))"
proof -
  from saveSession_written [OF written] obtain d where
    enc: "json_Marshal (go_config t) s = Inr d" and up: "redis_fault st = None"
    and st': "st' = (tick st)\<lparr>kv := (kv st)(sessionKey (sd_SessionID s) \<mapsto>
                  (d, if ttl (go_config t) = 0 then None
                      else Some (clock st (now_ix st) + int (ttl (go_config t)))))\<rparr>"
    by blast
  from enc have d: "d = SessionJSON (sanitize_record s)"
    by (simp add: go_config_def go_Marshal_def)
  have get: "redis_Get st' (sessionKey (sd_SessionID s)) = RedisValue d"
    using up soon by (auto simp: st' tick_def redis_Get_def expired_def go_config_def)
  have dec: "json_Unmarshal (go_config t) d = Inr (sanitize_record s)"
    by (simp add: d go_config_def)
  have load: "LoadSession (go_config t) st' (sd_SessionID s) = (Inr (sanitize_record s), tick st')"
    using get dec by (rule LoadSession_value)
  moreover have "LoadSession (go_config t) st' (sd_SessionID s) = (Inr s, tick st')"
    if "valid_record s"
    using load sanitize_record_id [OF that] by simp
  ultimately show ?thesis
    using sanitize_record_shape [of s] by simp
qed

lemma example_record_valid: "valid_record example_record"
  by (simp add: valid_record_def example_record_def ascii_valid_utf8 del: valid_utf8.simps)

theorem save_then_load_witness:
  "fst (saveSession (go_config 1800000000000) (fresh_state :: session_json state) example_record)
     = None
   \<and> LoadSession (go_config 1800000000000)
        (snd (saveSession (go_config 1800000000000) (fresh_state :: session_json state)
                example_record)) ''s1''
     = (Inr example_record,
        tick (snd (saveSession (go_config 1800000000000) (fresh_state :: session_json state)
                     example_record)))"
proof -
  let ?st = "fresh_state :: session_json state"
  let ?cfg = "go_config 1800000000000"
  have f: "fst (saveSession ?cfg ?st example_record) = None"
    by (simp add: saveSession_def redis_Set_def go_config_def go_Marshal_def fresh_state_def)
  then have w: "saveSession ?cfg ?st example_record
                  = (None, snd (saveSession ?cfg ?st example_record))"
    by (simp add: prod_eq_iff)
  have soon: "clock ?st (Suc (now_ix ?st)) \<le> clock ?st (now_ix ?st) + int 1800000000000"
    by (simp add: fresh_state_def)
  have sid: "sd_SessionID example_record = ''s1''"
    by (simp add: example_record_def)
  from save_then_load [OF w soon] have
    "valid_record example_record \<longrightarrow>
       LoadSession ?cfg (snd (saveSession ?cfg ?st example_record)) (sd_SessionID example_record)
         = (Inr example_record, tick (snd (saveSession ?cfg ?st example_record)))"
    by blast
  with example_record_valid f show ?thesis
    by (simp add: sid)
qed

text \<open>
  The claim as written fails on a content that is not UTF-8: the byte \<open>E9\<close> (Latin-1 for an
  accented e) of the second message comes back as the three bytes of U+FFFD.
\<close>

theorem invalid_utf8_round_trip_counterexample:
  "fst (saveSession (go_config 1800000000000) (fresh_state :: session_json state) latin1_record)
     = None
   \<and> fst (LoadSession (go_config 1800000000000)
            (snd (saveSession (go_config 1800000000000) (fresh_state :: session_json state)
                    latin1_record)) ''s1'')
     = Inr \<lparr>sd_SessionID = ''s1'', UserID = ''user_s1'',
            Messages = [\<lparr>Role = ''user'', Content = ''hello'', Timestamp = 1\<rparr>,
                        \<lparr>Role = ''assistant'',
                         Content = [CHR ''n'', CHR 0xEF, CHR 0xBF, CHR 0xBD, CHR ''e''],
                         Timestamp = 2\<rparr>],
            sd_Metadata = \<lparr>StartedAt = 1, LastActivity = 2, MessageCount = 2\<rparr>\<rparr>
   \<and> map Content (Messages latin1_record) = [''hello'', [CHR ''n'', CHR 0xE9, CHR ''e'']]
   \<and> [CHR ''n'', CHR 0xE9, CHR ''e''] \<noteq> [CHR ''n'', CHR 0xEF, CHR 0xBF, CHR 0xBD, CHR ''e'']"
  by (simp add: saveSession_def redis_Set_def LoadSession_def redis_Get_def expired_def tick_def
        go_config_def go_Marshal_def fresh_state_def latin1_record_def sessionKey_def
        sanitize_record_def sanitize_message_def rune_len_def in_range_def tail2_def tail3_def
        tail4_def replacement_def)

section \<open>A completion call that exceeds its deadline\<close>

lemma LoadSession_kv: "kv (snd (LoadSession cfg st sid)) = kv st"
  by (simp add: LoadSession_def time_Now_def tick_def Let_def
        split: get_result.splits sum.splits)

lemma GetOrCreateSession_kv: "kv (snd (GetOrCreateSession cfg st sid)) = kv st"
proof (cases "sessions st sid")
  case (Some mem)
  then show ?thesis by (simp add: GetOrCreateSession_def)
next
  case None
  obtain r st1 where l: "LoadSession cfg st sid = (r, st1)"
    by (cases "LoadSession cfg st sid")
  with LoadSession_kv [of cfg st sid] have "kv st1 = kv st" by simp
  with None l show ?thesis
    by (cases r) (simp_all add: GetOrCreateSession_def Let_def)
qed

lemma GetFormattedHistory_kv: "kv (snd (GetFormattedHistory cfg st sid)) = kv st"
proof -
  obtain r st1 where g: "GetOrCreateSession cfg st sid = (r, st1)"
    by (cases "GetOrCreateSession cfg st sid")
  with GetOrCreateSession_kv [of cfg st sid] have "kv st1 = kv st" by simp
  with g show ?thesis
    by (cases r) (simp_all add: GetFormattedHistory_def)
qed

lemma AnalyzeIntent_exchange_failed:
  assumes "\<And>r. exchange io r = DoFailed e"
  shows "AnalyzeIntent cfg io model st request =
     (Inl (''failed to make HTTP request: '' @ e),
      snd (GetFormattedHistory cfg
             (snd (SaveUserMessage cfg st (req_SessionID request)
                     (''user_'' @ req_SessionID request) (req_UserMessage request)))
             (req_SessionID request)))"
  by (simp add: AnalyzeIntent_def assms Let_def split: prod.splits)

text \<open>
  Claim C4, as the code has it. The completion backend is called by \<open>AnalyzeIntent\<close>, through
  an HTTP exchange. When that exchange fails, as it does when the deadline of the call
  passes, \<open>AnalyzeIntent\<close> returns the error \<open>failed to make HTTP request: ...\<close> to its caller
  and no result, so there is no status and no error code. No assistant turn is persisted:
  the call ends in the state in which the history was read, and the store is left as the
  saving of the user's turn left it.
\<close>

theorem deadline_returns_error:
  assumes "\<And>r. exchange io r = DoFailed e"
  shows "AnalyzeIntent cfg io model st request
           = (Inl (''failed to make HTTP request: '' @ e),
              snd (GetFormattedHistory cfg
                     (snd (SaveUserMessage cfg st (req_SessionID request)
                             (''user_'' @ req_SessionID request) (req_UserMessage request)))
                     (req_SessionID request)))
         \<and> kv (snd (AnalyzeIntent cfg io model st request))
           = kv (snd (SaveUserMessage cfg st (req_SessionID request)
                        (''user_'' @ req_SessionID request) (req_UserMessage request)))"
  unfolding AnalyzeIntent_exchange_failed [of io e cfg model st request, OF assms]
  by (simp add: GetFormattedHistory_kv)

lemma fresh_state_user_turn:
  "snd (SaveUserMessage (go_config 1800000000000) (fresh_state :: session_json state) ''s1'' ''user_s1'' ''hi'')
      = \<lparr>kv = [sessionKey ''s1'' \<mapsto>
               (SessionJSON
                 \<lparr>sd_SessionID = ''s1'', UserID = ''user_s1'',
                  Messages = [\<lparr>Role = ''user'', Content = ''hi'', Timestamp = 3\<rparr>],
                  sd_Metadata = \<lparr>StartedAt = 3, LastActivity = 7, MessageCount = 1\<rparr>\<rparr>,
                Some 1800000000008)],
          redis_fault = None, clock = (\<lambda>n. int n), now_ix = 9,
          sessions = [''s1'' \<mapsto> [HumanChatMessage ''hi'']]\<rparr>"
  by (simp add: SaveUserMessage_def GetOrCreateSession_def LoadSession_def redis_Get_def
        time_Now_def tick_def expired_def SaveMessage_def saveSession_def redis_Set_def
        fresh_state_def go_config_def go_Marshal_def sanitize_record_def sanitize_message_def
        ascii_to_valid_utf8 Let_def del: to_valid_utf8.simps)

theorem deadline_returns_error_witness:
  "fst (AnalyzeIntent (go_config 1800000000000)
          \<lparr>exchange = (\<lambda>r. DoFailed ''context deadline exceeded''),
           unmarshal_error = (\<lambda>b. Inl ''unused''), unmarshal_response = (\<lambda>b. Inl ''unused''),
           unmarshal_intent = (\<lambda>b. Inl ''unused'')\<rparr> ''claude-sonnet-4-20250514'' fresh_state
          \<lparr>req_SessionID = ''s1'', req_UserMessage = ''hi'',
            ConversationHistory = [], AvailableActions = []\<rparr>)
     = Inl ''failed to make HTTP request: context deadline exceeded''
   \<and> persisted (go_config 1800000000000)
        (snd (AnalyzeIntent (go_config 1800000000000)
          \<lparr>exchange = (\<lambda>r. DoFailed ''context deadline exceeded''),
           unmarshal_error = (\<lambda>b. Inl ''unused''), unmarshal_response = (\<lambda>b. Inl ''unused''),
           unmarshal_intent = (\<lambda>b. Inl ''unused'')\<rparr> ''claude-sonnet-4-20250514'' fresh_state
          \<lparr>req_SessionID = ''s1'', req_UserMessage = ''hi'',
            ConversationHistory = [], AvailableActions = []\<rparr>)) ''s1''
     = Some \<lparr>sd_SessionID = ''s1'', UserID = ''user_s1'',
             Messages = [\<lparr>Role = ''user'', Content = ''hi'', Timestamp = 3\<rparr>],
             sd_Metadata = \<lparr>StartedAt = 3, LastActivity = 7, MessageCount = 1\<rparr>\<rparr>"
proof -
  let ?io = "\<lparr>exchange = (\<lambda>r. DoFailed ''context deadline exceeded''),
             unmarshal_error = (\<lambda>b. Inl ''unused''), unmarshal_response = (\<lambda>b. Inl ''unused''),
             unmarshal_intent = (\<lambda>b. Inl ''unused'')\<rparr>"
  let ?req = "\<lparr>req_SessionID = ''s1'', req_UserMessage = ''hi'',
              ConversationHistory = [], AvailableActions = []\<rparr>"
  have ex: "\<And>r. exchange ?io r = DoFailed ''context deadline exceeded''"
    by simp
  note D = deadline_returns_error [of ?io "''context deadline exceeded''" "go_config 1800000000000"
             "''claude-sonnet-4-20250514''" "fresh_state :: session_json state" ?req, OF ex]
  from D [THEN conjunct1] have e: "fst (AnalyzeIntent (go_config 1800000000000) ?io ''claude-sonnet-4-20250514''
                         fresh_state ?req)
       = Inl ''failed to make HTTP request: context deadline exceeded''"
    by simp
  from D [THEN conjunct2] have k: "kv (snd (AnalyzeIntent (go_config 1800000000000) ?io ''claude-sonnet-4-20250514''
                             fresh_state ?req))
       = kv (snd (SaveUserMessage (go_config 1800000000000) (fresh_state :: session_json state)
                    ''s1'' ''user_s1'' ''hi''))"
    by simp
  have p: "persisted (go_config 1800000000000)
             (snd (AnalyzeIntent (go_config 1800000000000) ?io ''claude-sonnet-4-20250514'' fresh_state ?req))
             ''s1''
       = Some \<lparr>sd_SessionID = ''s1'', UserID = ''user_s1'',
               Messages = [\<lparr>Role = ''user'', Content = ''hi'', Timestamp = 3\<rparr>],
               sd_Metadata = \<lparr>StartedAt = 3, LastActivity = 7, MessageCount = 1\<rparr>\<rparr>"
    unfolding persisted_def k fresh_state_user_turn
    by (simp add: go_config_def)
  from e p show ?thesis by (rule conjI)
qed

lemma extractJSON_placeholder: "extractJSON placeholder_Content = placeholder_Content"
  by (simp add: extractJSON_def placeholder_Content_def dq_def Let_def)

lemma placeholder_nonempty: "placeholder_Content \<noteq> []"
  by (simp add: placeholder_Content_def)

text \<open>
  The claim as written fails: no path of the code reports \<open>LLM_API_TIMEOUT\<close>. In
  \<open>AnalyzeIntent\<close> a request whose HTTP exchange fails with \<open>context deadline exceeded\<close> ends
  in an error, not in a result with a status and an error code. The completion call of the
  handler is the placeholder of the source, which does not look at the deadline: the reply
  to a request is its fixed completion, decoded, with status \<open>NEEDS_INFO\<close> and no error
  code.
\<close>

theorem deadline_no_timeout_code_counterexample:
  "fst (AnalyzeIntent (go_config 1800000000000)
          \<lparr>exchange = (\<lambda>r. DoFailed ''context deadline exceeded''),
           unmarshal_error = (\<lambda>b. Inl ''unused''), unmarshal_response = (\<lambda>b. Inl ''unused''),
           unmarshal_intent = (\<lambda>b. Inl ''unused'')\<rparr> ''claude-sonnet-4-20250514'' fresh_state
          \<lparr>req_SessionID = ''s2'', req_UserMessage = ''set up a CDN for example.com'',
            ConversationHistory = [], AvailableActions = []\<rparr>)
     = Inl ''failed to make HTTP request: context deadline exceeded''
   \<and> fst (handleIntentRequest
            (\<lambda>data. (None, \<lparr>req_SessionID = ''s2'',
                              req_UserMessage = ''set up a CDN for example.com'',
                              ConversationHistory = [], AvailableActions = []\<rparr>))
            (\<lambda>s. s) placeholder_backend
            (\<lambda>p. if p = placeholder_Content
                  then Inr \<lparr>SessionID = [], Action = Some ''CREATE_SERVICE'',
                            Status = ''NEEDS_INFO'',
                            Parameters = Some [''domain_name'' \<mapsto> None],
                            UserMessage = ''I can help you setup a CDN! What would you like to name your service?'',
                            ErrorCode = None, ErrorMessage = None\<rparr>
                  else Inl ''unexpected end of JSON input'')
            ''{}'' [])
     = \<lparr>SessionID = ''s2'', Action = Some ''CREATE_SERVICE'', Status = ''NEEDS_INFO'',
        Parameters = Some [''domain_name'' \<mapsto> None],
        UserMessage = ''I can help you setup a CDN! What would you like to name your service?'',
        ErrorCode = None, ErrorMessage = None\<rparr>"
proof (rule conjI)
  let ?io = "\<lparr>exchange = (\<lambda>r. DoFailed ''context deadline exceeded''),
             unmarshal_error = (\<lambda>b. Inl ''unused''), unmarshal_response = (\<lambda>b. Inl ''unused''),
             unmarshal_intent = (\<lambda>b. Inl ''unused'')\<rparr>"
  let ?req = "\<lparr>req_SessionID = ''s2'', req_UserMessage = ''set up a CDN for example.com'',
              ConversationHistory = [], AvailableActions = []\<rparr>"
  have ex: "\<And>r. exchange ?io r = DoFailed ''context deadline exceeded''"
    by simp
  show "fst (AnalyzeIntent (go_config 1800000000000) ?io ''claude-sonnet-4-20250514'' fresh_state ?req)
       = Inl ''failed to make HTTP request: context deadline exceeded''"
    unfolding AnalyzeIntent_exchange_failed [of ?io "''context deadline exceeded''"
        "go_config 1800000000000" "''claude-sonnet-4-20250514''" "fresh_state :: session_json state" ?req, OF ex]
    by simp
  show "fst (handleIntentRequest
            (\<lambda>data. (None, ?req))
            (\<lambda>s. s) placeholder_backend
            (\<lambda>p. if p = placeholder_Content
                  then Inr \<lparr>SessionID = [], Action = Some ''CREATE_SERVICE'',
                            Status = ''NEEDS_INFO'',
                            Parameters = Some [''domain_name'' \<mapsto> None],
                            UserMessage = ''I can help you setup a CDN! What would you like to name your service?'',
                            ErrorCode = None, ErrorMessage = None\<rparr>
                  else Inl ''unexpected end of JSON input'')
            ''{}'' [])
     = \<lparr>SessionID = ''s2'', Action = Some ''CREATE_SERVICE'', Status = ''NEEDS_INFO'',
        Parameters = Some [''domain_name'' \<mapsto> None],
        UserMessage = ''I can help you setup a CDN! What would you like to name your service?'',
        ErrorCode = None, ErrorMessage = None\<rparr>"
    unfolding handleIntentRequest_def ProcessIntent_def callLLM_def placeholder_backend_def
      ParseLLMResponse_def
    by (simp add: validateRequest_def extractJSON_placeholder placeholder_nonempty
          validateAndCleanResponse_def validStatuses_def StatusNeedsInfo_def StatusReady_def
          StatusError_def Let_def)
qed

end
